theory Spec2Isabelle
  imports Complex_Main "HOL-Library.Multiset"
begin

section \<open>Python values\<close>

text \<open>
  Every value the service handles comes out of \<^verbatim>\<open>json.load\<close> / \<^verbatim>\<open>resp.json()\<close> or is built
  from such values, so one datatype of Python values serves for payloads, registry records
  and responses.  \<open>JNull\<close> is Python's \<^verbatim>\<open>None\<close>.  A dict is an association list in
  insertion order; \<^verbatim>\<open>bool\<close> is a subclass of \<^verbatim>\<open>int\<close> in Python, which \<open>is_int\<close> and
  \<open>py_eq\<close> below respect.  A float is a rational (every finite double is one), an
  infinity (the flag is the sign, \<open>True\<close> for positive) or NaN.
  Strings are lists of 8-bit characters: the model covers the strings whose code points
  lie below 256, and the character classes below are Python's on that range.
\<close>

datatype pyfloat = FRat rat | FInf bool | FNaN

datatype json =
    JNull
  | JBool bool
  | JInt int
  | JFloat pyfloat
  | JStr string
  | JArr "json list"
  | JObj "(string \<times> json) list"

text \<open>Truthiness, as \<^verbatim>\<open>if x\<close>, \<^verbatim>\<open>x or y\<close> and \<^verbatim>\<open>not x\<close> use it.\<close>

fun truthy :: "json \<Rightarrow> bool" where
  "truthy JNull = False"
| "truthy (JBool b) = b"
| "truthy (JInt n) = (n \<noteq> 0)"
| "truthy (JFloat f) = (f \<noteq> FRat 0)"
| "truthy (JStr s) = (s \<noteq> [])"
| "truthy (JArr xs) = (xs \<noteq> [])"
| "truthy (JObj kvs) = (kvs \<noteq> [])"

definition py_or :: "json \<Rightarrow> json \<Rightarrow> json" where
  "py_or a b = (if truthy a then a else b)"

fun is_dict :: "json \<Rightarrow> bool" where
  "is_dict (JObj kvs) = True"
| "is_dict v = False"

fun is_list :: "json \<Rightarrow> bool" where
  "is_list (JArr xs) = True"
| "is_list v = False"

text \<open>\<^verbatim>\<open>isinstance(v, int)\<close>: true of ints and of booleans.\<close>

fun is_int :: "json \<Rightarrow> bool" where
  "is_int (JInt n) = True"
| "is_int (JBool b) = True"
| "is_int v = False"

fun int_val :: "json \<Rightarrow> int" where
  "int_val (JInt n) = n"
| "int_val (JBool b) = (if b then 1 else 0)"
| "int_val v = 0"

text \<open>\<^verbatim>\<open>d.get(k)\<close> and \<^verbatim>\<open>d.get(k, default)\<close> on a dict.\<close>

definition dict_get :: "(string \<times> json) list \<Rightarrow> string \<Rightarrow> json" where
  "dict_get kvs k = (case map_of kvs k of None \<Rightarrow> JNull | Some v \<Rightarrow> v)"

definition dict_get_default :: "(string \<times> json) list \<Rightarrow> string \<Rightarrow> json \<Rightarrow> json" where
  "dict_get_default kvs k d = (case map_of kvs k of None \<Rightarrow> d | Some v \<Rightarrow> v)"

section \<open>Decimal formatting\<close>

definition digit_char :: "nat \<Rightarrow> char" where
  "digit_char d = ''0123456789'' ! d"

definition is_ascii_digit :: "char \<Rightarrow> bool" where
  "is_ascii_digit c = (c \<in> set ''0123456789'')"

definition digit_val :: "char \<Rightarrow> nat" where
  "digit_val c = of_char c - 48"

text \<open>The number a string of decimal digits denotes (\<^verbatim>\<open>int(s)\<close> on such a string).\<close>

definition dec_value :: "string \<Rightarrow> nat" where
  "dec_value s = foldl (\<lambda>acc c. 10 * acc + digit_val c) 0 s"

text \<open>\<^verbatim>\<open>str(n)\<close> for a natural number.\<close>

fun digits10 :: "nat \<Rightarrow> string" where
  "digits10 n =
     (if n < 10 then [digit_char n] else digits10 (n div 10) @ [digit_char (n mod 10)])"

declare digits10.simps [simp del]

text \<open>The format \<^verbatim>\<open>{i:03d}\<close> for \<open>i \<ge> 0\<close>: zeros on the left up to width three.\<close>

definition fmt03 :: "nat \<Rightarrow> string" where
  "fmt03 i = (let s = digits10 i in replicate (3 - length s) (CHR ''0'') @ s)"

section \<open>utils/match\_ids.py\<close>

text \<open>
  \<^verbatim>\<open>
  def generate_match_ids(draw_size):
      if not isinstance(draw_size, int) or draw_size < 2:
          return []
      total_matches = draw_size - 1
      return [f"ms{i:03d}" for i in range(1, total_matches + 1)]
  \<close>
\<close>

definition generate_match_ids :: "json \<Rightarrow> string list" where
  "generate_match_ids draw_size =
     (if \<not> is_int draw_size \<or> int_val draw_size < 2 then []
      else let total_matches = int_val draw_size - 1
           in map (\<lambda>i. ''ms'' @ fmt03 (nat i)) [1..total_matches])"

definition generate_qualifier_ids :: "json \<Rightarrow> string list" where
  "generate_qualifier_ids max_qualy =
     (if \<not> is_int max_qualy \<or> int_val max_qualy \<le> 0 then []
      else map (\<lambda>i. ''qs'' @ fmt03 (nat i)) [1..int_val max_qualy])"

section \<open>Python string operations\<close>

text \<open>
  \<^verbatim>\<open>str.isspace\<close> on the code points below 256: the ASCII white space, the four
  separators 0x1C to 0x1F, NEL (0x85) and the no-break space (0xA0).
  \<^verbatim>\<open>str.split()\<close> without arguments cuts at runs of such characters and gives no
  empty token; \<^verbatim>\<open>str.strip()\<close> removes them at both ends.
\<close>

definition is_space :: "char \<Rightarrow> bool" where
  "is_space c = ((of_char c :: nat) \<in> {9, 10, 11, 12, 13, 28, 29, 30, 31, 32, 133, 160})"

definition py_strip :: "string \<Rightarrow> string" where
  "py_strip s = rev (dropWhile is_space (rev (dropWhile is_space s)))"

fun split_ws :: "string \<Rightarrow> string \<Rightarrow> string list" where
  "split_ws cur [] = (if cur = [] then [] else [cur])"
| "split_ws cur (c # cs) =
     (if is_space c then (if cur = [] then split_ws [] cs else cur # split_ws [] cs)
      else split_ws (cur @ [c]) cs)"

definition py_split :: "string \<Rightarrow> string list" where
  "py_split s = split_ws [] s"

text \<open>
  \<^verbatim>\<open>str.upper\<close> and \<^verbatim>\<open>str.lower\<close> on the code points below 256.  Upper-casing the
  sharp s (0xDF) gives two characters.  The upper-case forms of the micro sign (0xB5) and
  of y with diaeresis (0xFF) lie above 255; they are left as they are here, which no
  comparison with an ASCII string can tell from Python's result.
\<close>

definition upper_char :: "char \<Rightarrow> string" where
  "upper_char c =
     (let n = (of_char c :: nat) in
      if 97 \<le> n \<and> n \<le> 122 then [char_of (n - 32)]
      else if n = 223 then ''SS''
      else if 224 \<le> n \<and> n \<le> 254 \<and> n \<noteq> 247 then [char_of (n - 32)]
      else [c])"

definition py_upper :: "string \<Rightarrow> string" where
  "py_upper s = concat (map upper_char s)"

definition lower_char :: "char \<Rightarrow> char" where
  "lower_char c =
     (let n = (of_char c :: nat) in
      if 65 \<le> n \<and> n \<le> 90 then char_of (n + 32)
      else if 192 \<le> n \<and> n \<le> 222 \<and> n \<noteq> 215 then char_of (n + 32)
      else c)"

definition py_lower :: "string \<Rightarrow> string" where
  "py_lower s = map lower_char s"

section \<open>utils/atp\_h2h.py: the result-string parser\<close>

text \<open>
  \<^verbatim>\<open>
  _SET_TOKEN_RE = _re.compile(r"^(\d+)(?:\((\d+)\))?$")
  \<close>
  \<open>set_token_match\<close> is \<^verbatim>\<open>_SET_TOKEN_RE.match(tok)\<close>: \<open>None\<close> when the token does not
  match, otherwise the two groups (the second is absent when the parenthesis is).  On the
  code points below 256, \<^verbatim>\<open>\d\<close> is the ten ASCII digits; \<^verbatim>\<open>$\<close> also matches before a
  final newline.
\<close>

definition set_token_match :: "string \<Rightarrow> (string \<times> string option) option" where
  "set_token_match tok =
     (let digits = takeWhile is_ascii_digit tok;
          rest = dropWhile is_ascii_digit tok;
          rest' = (if rest \<noteq> [] \<and> last rest = CHR 0x0A then butlast rest else rest)
      in if digits = [] then None
         else if rest' = [] then Some (digits, None)
         else if hd rest' = CHR ''('' then
           (let tb = takeWhile is_ascii_digit (tl rest');
                close = dropWhile is_ascii_digit (tl rest')
            in if tb \<noteq> [] \<and> close = '')'' then Some (digits, Some tb) else None)
         else None)"

definition markers :: "string list" where
  "markers = [''RET'', ''W/O'', ''WO'', ''DEF'', ''ABN'', ''BYE'', ''CANC'']"

text \<open>The dict \<^verbatim>\<open>{"set": .., "p1": .., "p2": .., "tiebreak": ..}\<close> appended for a set.\<close>

definition set_entry :: "int \<Rightarrow> nat \<Rightarrow> nat \<Rightarrow> json \<Rightarrow> json" where
  "set_entry set_num p1_games p2_games tiebreak =
     JObj [(''set'', JInt set_num), (''p1'', JInt (int p1_games)), (''p2'', JInt (int p2_games)),
           (''tiebreak'', tiebreak)]"

text \<open>
  The loop of \<^verbatim>\<open>parse_result_string\<close> over the tokens, with its two variables
  \<^verbatim>\<open>out\<close> and \<^verbatim>\<open>set_num\<close>: \<^verbatim>\<open>break\<close> returns \<open>out\<close>, \<^verbatim>\<open>continue\<close> goes on with the
  remaining tokens.
  \<^verbatim>\<open>
  for tok in tokens:
      upper = tok.upper()
      if upper in {"RET", "W/O", "WO", "DEF", "ABN", "BYE", "CANC"}:
          break
      m = _SET_TOKEN_RE.match(tok)
      if not m:
          continue
      digits = m.group(1)
      tb = m.group(2)
      if len(digits) < 2:
          continue
      p1_games = int(digits[0])
      p2_games = int(digits[1])
      set_num += 1
      out.append({"set": set_num, "p1": p1_games, "p2": p2_games,
                  "tiebreak": int(tb) if tb else None})
  \<close>
  The conversion \<^verbatim>\<open>int(tb)\<close> is the mathematical one: the interpreter's configurable limit
  on the number of digits of a converted string is not part of the model.
\<close>

fun parse_loop :: "string list \<Rightarrow> json list \<Rightarrow> int \<Rightarrow> json list" where
  "parse_loop [] out set_num = out"
| "parse_loop (tok # tokens) out set_num =
     (let upper = py_upper tok in
      if upper \<in> set markers then out
      else case set_token_match tok of
        None \<Rightarrow> parse_loop tokens out set_num
      | Some (digits, tb) \<Rightarrow>
          if length digits < 2 then parse_loop tokens out set_num
          else let p1_games = digit_val (digits ! 0);
                   p2_games = digit_val (digits ! 1);
                   set_num' = set_num + 1
               in parse_loop tokens
                    (out @ [set_entry set_num' p1_games p2_games
                       (case tb of None \<Rightarrow> JNull
                        | Some t \<Rightarrow> if t \<noteq> [] then JInt (int (dec_value t)) else JNull)])
                    set_num')"

text \<open>
  \<^verbatim>\<open>
  def parse_result_string(result):
      if not result or not isinstance(result, str):
          return None
      tokens = result.strip().split()
      out = []; set_num = 0
      for tok in tokens: ...
      return out or None
  \<close>
\<close>

definition parse_result_string :: "json \<Rightarrow> json" where
  "parse_result_string result =
     (if \<not> truthy result then JNull
      else case result of
        JStr r \<Rightarrow>
          (let tokens = py_split (py_strip r);
               out = parse_loop tokens [] 0
           in if out = [] then JNull else JArr out)
      | _ \<Rightarrow> JNull)"

subsection \<open>The parser as the specification words it\<close>

text \<open>
  Two strings are equal without regard to case when their upper-case forms are equal; a
  token is a non-completion marker when it is so equal to one of the seven markers.
\<close>

definition ci_equal :: "string \<Rightarrow> string \<Rightarrow> bool" where
  "ci_equal a b = (py_upper a = py_upper b)"

definition is_marker :: "string \<Rightarrow> bool" where
  "is_marker tok = (\<exists>m \<in> set markers. ci_equal tok m)"

text \<open>
  What an accepted token contributes: the first digit, the second digit and the count in
  parentheses when there is one.  \<open>None\<close> for a token that is rejected.
\<close>

definition token_games :: "string \<Rightarrow> (nat \<times> nat \<times> nat option) option" where
  "token_games tok =
     (case set_token_match tok of
        None \<Rightarrow> None
      | Some (digits, tb) \<Rightarrow>
          if length digits < 2 then None
          else Some (digit_val (digits ! 0), digit_val (digits ! 1), map_option dec_value tb))"

text \<open>
  The sets of a token list, numbered from \<open>n\<close>: a marker ends the list, a rejected token
  is passed over, an accepted token gives the next set.
\<close>

fun spec_sets :: "nat \<Rightarrow> string list \<Rightarrow> (nat \<times> nat \<times> nat \<times> nat option) list" where
  "spec_sets n [] = []"
| "spec_sets n (tok # toks) =
     (if is_marker tok then []
      else case token_games tok of
        None \<Rightarrow> spec_sets n toks
      | Some (a, b, t) \<Rightarrow> (n, a, b, t) # spec_sets (Suc n) toks)"

fun tuple_json :: "nat \<times> nat \<times> nat \<times> nat option \<Rightarrow> json" where
  "tuple_json (n, a, b, t) =
     set_entry (int n) a b (case t of None \<Rightarrow> JNull | Some k \<Rightarrow> JInt (int k))"

section \<open>Python built-ins that are not modelled\<close>

text \<open>
  Two conversions are left open and passed to the functions that use them: \<^verbatim>\<open>str(v)\<close>
  for a float, a list or a dict, and \<^verbatim>\<open>int(s)\<close> for a string (\<open>None\<close> when it raises
  \<^verbatim>\<open>ValueError\<close>).  Every theorem holds whatever these two functions are.
\<close>

record builtins =
  repr_of :: "json \<Rightarrow> string"
  int_of_str :: "string \<Rightarrow> int option"

definition plain_builtins :: builtins where
  "plain_builtins = \<lparr>repr_of = (\<lambda>v. []), int_of_str = (\<lambda>s. None)\<rparr>"

definition str_int :: "int \<Rightarrow> string" where
  "str_int n = (if n < 0 then CHR ''-'' # digits10 (nat (- n)) else digits10 (nat n))"

fun py_str :: "builtins \<Rightarrow> json \<Rightarrow> string" where
  "py_str py (JStr s) = s"
| "py_str py JNull = ''None''"
| "py_str py (JBool b) = (if b then ''True'' else ''False'')"
| "py_str py (JInt n) = str_int n"
| "py_str py v = repr_of py v"

text \<open>
  \<^verbatim>\<open>str.isdigit\<close> on the strings of the model.  It is false of the empty string.  Of the
  characters below 256 Python counts as digits the decimal digits 0 to 9 and the
  superscript digits two, three and one (0xB2, 0xB3, 0xB9), which are not decimal digits.
  Unicode has many more digit characters above 255 (further superscripts, circled digits,
  the digits of other scripts); a string that holds one of them is not a string of the
  model, and nothing below speaks of it.
\<close>

definition isdigit_char :: "char \<Rightarrow> bool" where
  "isdigit_char c = (is_ascii_digit c \<or> (of_char c :: nat) \<in> {178, 179, 185})"

definition py_isdigit :: "string \<Rightarrow> bool" where
  "py_isdigit s = (s \<noteq> [] \<and> (\<forall>c \<in> set s. isdigit_char c))"

section \<open>api/matches.py: the identifier resolver\<close>

text \<open>
  The registry that \<^verbatim>\<open>load_tournament_registry\<close> returns: a dict from identifier to
  record, each record a dict (a list element that is not a dict makes the loader raise).
\<close>

type_synonym jdict = "(string \<times> json) list"
type_synonym registry = "(string \<times> jdict) list"

text \<open>
  \<^verbatim>\<open>
  def resolve_tournament_id(tournament_id_or_name, tournaments):
      key = str(tournament_id_or_name)
      if key in tournaments:
          return key
      lowered = key.lower()
      for tid, t in tournaments.items():
          if str(t.get("Name", "")).lower() == lowered:
              return tid
      if key.isdigit():
          return key
      return None
  \<close>
\<close>

definition display_name :: "builtins \<Rightarrow> jdict \<Rightarrow> string" where
  "display_name py t = py_str py (dict_get_default t ''Name'' (JStr ''''))"

definition name_matches :: "builtins \<Rightarrow> string \<Rightarrow> jdict \<Rightarrow> bool" where
  "name_matches py lowered t = (py_lower (display_name py t) = lowered)"

definition resolve_tournament_id :: "builtins \<Rightarrow> string \<Rightarrow> registry \<Rightarrow> string option" where
  "resolve_tournament_id py key tournaments =
     (if map_of tournaments key \<noteq> None then Some key
      else let lowered = py_lower key in
        case find (\<lambda>(tid, t). name_matches py lowered t) tournaments of
          Some (tid, t) \<Rightarrow> Some tid
        | None \<Rightarrow> if py_isdigit key then Some key else None)"

text \<open>The registry of the specification's example: one record, 580, named Doha.\<close>

definition doha :: registry where
  "doha = [(''580'', [(''Id'', JStr ''580''), (''Name'', JStr ''Doha'')])]"

section \<open>Exceptions and the upstream service\<close>

text \<open>
  An exception that leaves a function is the \<open>Inl\<close> of its result.  \<open>HTTPException\<close>
  carries the status code and the detail; \<open>RequestError\<close> is \<^verbatim>\<open>httpx.RequestError\<close>, the
  class of the time-outs and connection failures of an outbound request.  \<open>InvalidURL\<close> is
  \<^verbatim>\<open>httpx.InvalidURL\<close>, which is not a \<open>RequestError\<close>.
\<close>

datatype exc =
    HTTPException nat string
  | RequestError
  | TypeError
  | ValueError
  | OverflowError
  | AttributeError
  | InvalidURL

text \<open>
  What one \<^verbatim>\<open>client.get(url)\<close> meets: the request fails with a \<open>RequestError\<close>, or a
  response arrives with a status code and a body, for which \<^verbatim>\<open>resp.json()\<close> gives a value
  or raises (\<open>None\<close>).  The upstream service is a function from the URL to this outcome.
\<close>

datatype upstream = NetworkFailure | Response int "json option"

text \<open>
  The status a request ends with: 200 for a returned value, the code of an
  \<open>HTTPException\<close>, 500 for any other exception.
\<close>

fun http_status :: "exc + json \<Rightarrow> nat" where
  "http_status (Inr v) = 200"
| "http_status (Inl (HTTPException code detail)) = code"
| "http_status (Inl e) = 500"

text \<open>\<^verbatim>\<open>int(v)\<close>.\<close>

fun py_int :: "builtins \<Rightarrow> json \<Rightarrow> exc + int" where
  "py_int py (JInt n) = Inr n"
| "py_int py (JBool b) = Inr (if b then 1 else 0)"
| "py_int py (JFloat (FRat q)) = Inr (if 0 \<le> q then \<lfloor>q\<rfloor> else \<lceil>q\<rceil>)"
| "py_int py (JFloat (FInf s)) = Inl OverflowError"
| "py_int py (JFloat FNaN) = Inl ValueError"
| "py_int py (JStr s) = (case int_of_str py s of None \<Rightarrow> Inl ValueError | Some n \<Rightarrow> Inr n)"
| "py_int py v = Inl TypeError"

text \<open>\<^verbatim>\<open>s.split(sep)\<close> for a separator of one character, and \<^verbatim>\<open>d[k] = v\<close> on a dict.\<close>

fun split_on :: "char \<Rightarrow> string \<Rightarrow> string list" where
  "split_on sep [] = [[]]"
| "split_on sep (c # cs) =
     (if c = sep then [] # split_on sep cs
      else case split_on sep cs of
        [] \<Rightarrow> [[c]]
      | w # ws \<Rightarrow> (c # w) # ws)"

fun dict_set :: "jdict \<Rightarrow> string \<Rightarrow> json \<Rightarrow> jdict" where
  "dict_set [] k v = [(k, v)]"
| "dict_set ((k', v') # kvs) k v =
     (if k' = k then (k', v) # kvs else (k', v') # dict_set kvs k v)"

section \<open>api/matches.py: fetching and the containment predicate\<close>

definition BASE_HAWKEYE_URL :: string where
  "BASE_HAWKEYE_URL = ''https://www.atptour.com/-/Hawkeye/MatchStats/Complete''"

definition MAX_QUALIFIERS :: int where
  "MAX_QUALIFIERS = 20"

text \<open>
  \<^verbatim>\<open>
  async def fetch_match(client, year, tournament_id, match_id):
      url = f"{BASE_HAWKEYE_URL}/{year}/{tournament_id}/{match_id}"
      resp = await client.get(url)
      if resp.status_code != 200:
          return None
      try:
          return resp.json()
      except Exception:
          return None
  \<close>
  The call \<^verbatim>\<open>client.get\<close> stands outside the \<^verbatim>\<open>try\<close>: what it raises leaves \<open>fetch_match\<close>.
\<close>

definition match_url :: "int \<Rightarrow> string \<Rightarrow> string \<Rightarrow> string" where
  "match_url year tournament_id match_id =
     BASE_HAWKEYE_URL @ ''/'' @ str_int year @ ''/'' @ tournament_id @ ''/'' @ match_id"

definition fetch_match :: "(string \<Rightarrow> upstream) \<Rightarrow> int \<Rightarrow> string \<Rightarrow> string \<Rightarrow> exc + json" where
  "fetch_match client year tournament_id match_id =
     (case client (match_url year tournament_id match_id) of
        NetworkFailure \<Rightarrow> Inl RequestError
      | Response status_code body \<Rightarrow>
          if status_code \<noteq> 200 then Inr JNull
          else case body of
            Some v \<Rightarrow> Inr v
          | None \<Rightarrow> Inr JNull)"

text \<open>
  \<^verbatim>\<open>
  def _get(obj, path, default=None):
      cur = obj
      for key in path.split("."):
          if not isinstance(cur, dict):
              return default
          cur = cur.get(key)
          if cur is None:
              return default
      return cur
  \<close>
\<close>

fun get_loop :: "json \<Rightarrow> string list \<Rightarrow> json \<Rightarrow> json" where
  "get_loop cur [] dflt = cur"
| "get_loop cur (key # keys) dflt =
     (case cur of
        JObj kvs \<Rightarrow>
          (let cur' = dict_get kvs key
           in if cur' = JNull then dflt else get_loop cur' keys dflt)
      | _ \<Rightarrow> dflt)"

definition nested_get :: "json \<Rightarrow> string \<Rightarrow> json \<Rightarrow> json" where
  "nested_get obj path dflt = get_loop obj (split_on (CHR ''.'') path) dflt"

text \<open>
  \<^verbatim>\<open>
  def _has_match_id(payload):
      if not isinstance(payload, dict):
          return False
      if isinstance(payload.get("Match"), dict) and payload["Match"].get("MatchId"):
          return True
      if payload.get("MatchId"):
          return True
      return False
  \<close>
\<close>

definition has_match_id :: "json \<Rightarrow> bool" where
  "has_match_id payload =
     (case payload of
        JObj p \<Rightarrow>
          (if (case dict_get p ''Match'' of
                 JObj m \<Rightarrow> truthy (dict_get m ''MatchId'')
               | _ \<Rightarrow> False) then True
           else if truthy (dict_get p ''MatchId'') then True
           else False)
      | _ \<Rightarrow> False)"

section \<open>api/matches.py: the match normalizer\<close>

text \<open>
  The keys of the two by-set dicts are arbitrary hashable values.  Python compares
  them with \<^verbatim>\<open>==\<close>, under which \<^verbatim>\<open>True\<close>, \<^verbatim>\<open>1\<close> and \<^verbatim>\<open>1.0\<close> are one key; a list or a
  dict as key raises \<^verbatim>\<open>TypeError\<close>.  \<open>num_val\<close> is the numeric value of a number.
\<close>

fun num_val :: "json \<Rightarrow> pyfloat option" where
  "num_val (JInt n) = Some (FRat (of_int n))"
| "num_val (JBool b) = Some (FRat (if b then 1 else 0))"
| "num_val (JFloat f) = Some f"
| "num_val v = None"

definition py_eq :: "json \<Rightarrow> json \<Rightarrow> bool" where
  "py_eq a b =
     (case (num_val a, num_val b) of
        (Some x, Some y) \<Rightarrow> x = y
      | (None, None) \<Rightarrow> a = b
      | _ \<Rightarrow> False)"

definition hashable :: "json \<Rightarrow> bool" where
  "hashable v = (\<not> is_list v \<and> \<not> is_dict v)"

text \<open>
  A dict with such keys, in insertion order: \<open>pd_get\<close> is \<^verbatim>\<open>d.get(k, default)\<close> and
  \<open>pd_set\<close> is \<^verbatim>\<open>d[k] = v\<close>, which keeps the key already there and replaces its value.
\<close>

fun pd_get :: "(json \<times> json) list \<Rightarrow> json \<Rightarrow> json \<Rightarrow> json" where
  "pd_get [] k dflt = dflt"
| "pd_get ((k', v') # kvs) k dflt = (if py_eq k' k then v' else pd_get kvs k dflt)"

fun pd_set :: "(json \<times> json) list \<Rightarrow> json \<Rightarrow> json \<Rightarrow> (json \<times> json) list" where
  "pd_set [] k v = [(k, v)]"
| "pd_set ((k', v') # kvs) k v =
     (if py_eq k' k then (k', v) # kvs else (k', v') # pd_set kvs k v)"

text \<open>
  \<^verbatim>\<open>{s.get("SetNumber"): s for s in sets if isinstance(s, dict)}\<close>, with the dict built so
  far as accumulator.
\<close>

fun by_set :: "json list \<Rightarrow> (json \<times> json) list \<Rightarrow> exc + (json \<times> json) list" where
  "by_set [] acc = Inr acc"
| "by_set (s # sets) acc =
     (case s of
        JObj kvs \<Rightarrow>
          (let k = dict_get kvs ''SetNumber''
           in if hashable k then by_set sets (pd_set acc k s) else Inl TypeError)
      | _ \<Rightarrow> by_set sets acc)"

text \<open>
  \<^verbatim>\<open>a | b\<close> on two sets, each given by the list of its elements: the elements of \<open>a\<close>
  and those of \<open>b\<close> that equal none of \<open>a\<close>.
\<close>

definition set_union :: "json list \<Rightarrow> json list \<Rightarrow> json list" where
  "set_union a b = a @ filter (\<lambda>k. \<not> (\<exists>k' \<in> set a. py_eq k' k)) b"

text \<open>
  \<^verbatim>\<open>
  set_numbers = sorted({k for k in (set(p1_by_set.keys()) | set(p2_by_set.keys()))
                        if isinstance(k, int) and k >= 1})
  \<close>
  The order in which a set is iterated depends on the hashes of its elements and on its
  history; the model takes it as the parameter \<open>iter\<close>, which rearranges the list of the
  elements of a set.  The model iterates the union and the set built from it with it.
\<close>

definition set_numbers :: "(json list \<Rightarrow> json list) \<Rightarrow> (json \<times> json) list \<Rightarrow> (json \<times> json) list \<Rightarrow> json list" where
  "set_numbers iter p1_by_set p2_by_set =
     sort_key int_val
       (iter (filter (\<lambda>k. is_int k \<and> 1 \<le> int_val k)
          (iter (set_union (map fst p1_by_set) (map fst p2_by_set)))))"

definition score_entry :: "(json \<times> json) list \<Rightarrow> (json \<times> json) list \<Rightarrow> json \<Rightarrow> json" where
  "score_entry p1_by_set p2_by_set n =
     (let s1 = pd_get p1_by_set n (JObj []);
          s2 = pd_get p2_by_set n (JObj []);
          tb1 = (case s1 of JObj kvs \<Rightarrow> dict_get kvs ''TieBreakScore'' | _ \<Rightarrow> JNull);
          tb2 = (case s2 of JObj kvs \<Rightarrow> dict_get kvs ''TieBreakScore'' | _ \<Rightarrow> JNull)
      in JObj [(''set'', n),
               (''p1'', (case s1 of JObj kvs \<Rightarrow> dict_get kvs ''SetScore'' | _ \<Rightarrow> JNull)),
               (''p2'', (case s2 of JObj kvs \<Rightarrow> dict_get kvs ''SetScore'' | _ \<Rightarrow> JNull)),
               (''tiebreak'', if tb1 = JNull \<and> tb2 = JNull then JNull
                              else JObj [(''p1'', tb1), (''p2'', tb2)])])"

text \<open>
  \<^verbatim>\<open>
  score = []
  if isinstance(p1_sets, list) and isinstance(p2_sets, list) and (p1_sets or p2_sets):
      p1_by_set = {...}; p2_by_set = {...}
      set_numbers = sorted({...})
      for n in set_numbers:
          ... score.append({...})
  \<close>
\<close>

definition match_score :: "(json list \<Rightarrow> json list) \<Rightarrow> json \<Rightarrow> json \<Rightarrow> exc + json list" where
  "match_score iter p1_sets p2_sets =
     (case (p1_sets, p2_sets) of
        (JArr xs, JArr ys) \<Rightarrow>
          if xs \<noteq> [] \<or> ys \<noteq> [] then
            (case by_set xs [] of
               Inl e \<Rightarrow> Inl e
             | Inr p1_by_set \<Rightarrow>
                 (case by_set ys [] of
                    Inl e \<Rightarrow> Inl e
                  | Inr p2_by_set \<Rightarrow>
                      Inr (map (score_entry p1_by_set p2_by_set)
                             (set_numbers iter p1_by_set p2_by_set))))
          else Inr []
      | _ \<Rightarrow> Inr [])"

text \<open>
  \<^verbatim>\<open>
  def player_obj(p):
      if not isinstance(p, dict) or not p.get("PlayerId"):
          return None
      return {"player_id": p.get("PlayerId"), "first_name": p.get("PlayerFirstName"),
              "last_name": p.get("PlayerLastName"), "country": p.get("PlayerCountry")}
  \<close>
\<close>

definition player_obj :: "json \<Rightarrow> json" where
  "player_obj p =
     (case p of
        JObj kvs \<Rightarrow>
          if \<not> truthy (dict_get kvs ''PlayerId'') then JNull
          else JObj [(''player_id'', dict_get kvs ''PlayerId''),
                     (''first_name'', dict_get kvs ''PlayerFirstName''),
                     (''last_name'', dict_get kvs ''PlayerLastName''),
                     (''country'', dict_get kvs ''PlayerCountry'')]
      | _ \<Rightarrow> JNull)"

text \<open>
  \<open>flatten_match_data\<close>, in the order of the source.  \<open>match\<close> is the wrapped
  \<^verbatim>\<open>Match\<close> object when there is one and the payload itself otherwise; both are dicts, so
  every \<^verbatim>\<open>.get\<close> is on a dict.
\<close>

definition flatten_match_data :: "(json list \<Rightarrow> json list) \<Rightarrow> json \<Rightarrow> exc + json" where
  "flatten_match_data iter payload =
     (case payload of
        JObj p \<Rightarrow>
          (let tournament = (case dict_get p ''Tournament'' of JObj t \<Rightarrow> t | _ \<Rightarrow> []);
               match = (case dict_get p ''Match'' of JObj m \<Rightarrow> m | _ \<Rightarrow> p);
               match_id = py_or (dict_get match ''MatchId'') (dict_get p ''MatchId'');
               round_short = py_or (py_or (nested_get (JObj match) ''Round.ShortName'' JNull)
                                          (dict_get match ''RoundName''))
                                   (dict_get match ''Round'');
               surface = py_or (py_or (dict_get tournament ''Court'') (dict_get match ''Surface''))
                               (dict_get p ''Surface'');
               status = py_or (py_or (dict_get match ''Status'') (dict_get match ''MatchStatus''))
                              (dict_get p ''Status'');
               duration = py_or (dict_get match ''MatchTimeTotal'') (dict_get match ''MatchTime'');
               winner_id = py_or (py_or (dict_get match ''WinningPlayerId'')
                                        (dict_get match ''Winner''))
                                 (dict_get p ''Winner'');
               p1 = py_or (nested_get (JObj match) ''PlayerTeam.Player'' JNull) (JObj []);
               p2 = py_or (nested_get (JObj match) ''OpponentTeam.Player'' JNull) (JObj []);
               players = filter truthy [player_obj p1, player_obj p2];
               p1_sets = nested_get (JObj match) ''PlayerTeam1.Sets'' (JArr []);
               p2_sets = nested_get (JObj match) ''PlayerTeam2.Sets'' (JArr [])
           in case match_score iter p1_sets p2_sets of
                Inl e \<Rightarrow> Inl e
              | Inr score \<Rightarrow>
                  Inr (JObj
                    [(''match_id'', match_id),
                     (''event_id'', dict_get tournament ''EventId''),
                     (''event_year'', dict_get tournament ''EventYear''),
                     (''event_name'', dict_get tournament ''EventDisplayName''),
                     (''tournament_name'', dict_get tournament ''TournamentName''),
                     (''city'', dict_get tournament ''TournamentCity''),
                     (''surface'', surface),
                     (''round'', round_short),
                     (''status'', status),
                     (''is_doubles'', dict_get match ''IsDoubles''),
                     (''winner_id'', winner_id),
                     (''players'', py_or (JArr players) JNull),
                     (''score'', py_or (JArr score) JNull),
                     (''duration'', duration)]))
      | _ \<Rightarrow> Inr (JObj []))"

subsection \<open>Reading payloads and records\<close>

text \<open>A field of a value that may or may not be a dict.\<close>

definition field_of :: "json \<Rightarrow> string \<Rightarrow> json" where
  "field_of s name = (case s of JObj kvs \<Rightarrow> dict_get kvs name | _ \<Rightarrow> JNull)"

text \<open>The set numbers of the score list of a normalized record.\<close>

definition score_numbers :: "json \<Rightarrow> json list" where
  "score_numbers r =
     (case field_of r ''score'' of
        JArr entries \<Rightarrow> map (\<lambda>e. field_of e ''set'') entries
      | _ \<Rightarrow> [])"

text \<open>Keys of which no two are equal in Python's sense.\<close>

fun pairwise_ne :: "json list \<Rightarrow> bool" where
  "pairwise_ne [] = True"
| "pairwise_ne (k # ks) = ((\<forall>x \<in> set ks. \<not> py_eq k x) \<and> pairwise_ne ks)"

text \<open>
  The two per-set arrays that \<open>flatten_match_data\<close> reads from a payload that is a dict.
\<close>

definition match_of :: "jdict \<Rightarrow> jdict" where
  "match_of p = (case dict_get p ''Match'' of JObj m \<Rightarrow> m | _ \<Rightarrow> p)"

definition p1_sets_of :: "jdict \<Rightarrow> json" where
  "p1_sets_of p = nested_get (JObj (match_of p)) ''PlayerTeam1.Sets'' (JArr [])"

definition p2_sets_of :: "jdict \<Rightarrow> json" where
  "p2_sets_of p = nested_get (JObj (match_of p)) ''PlayerTeam2.Sets'' (JArr [])"

subsection \<open>Example payloads\<close>

text \<open>A payload with three sets on side one and three on side two, and its record.\<close>

definition example_payload :: json where
  "example_payload =
     JObj [(''Tournament'', JObj [(''Court'', JStr ''Hard'')]),
       (''Match'', JObj [(''MatchId'', JStr ''ms001''),
          (''PlayerTeam1'', JObj [(''Sets'', JArr
             [JObj [(''SetNumber'', JInt 2), (''SetScore'', JInt 6)],
              JObj [(''SetNumber'', JInt 1), (''SetScore'', JInt 7), (''TieBreakScore'', JInt 7)],
              JObj [(''SetNumber'', JInt 0), (''SetScore'', JInt 0)]])]),
          (''PlayerTeam2'', JObj [(''Sets'', JArr
             [JObj [(''SetNumber'', JInt 1), (''SetScore'', JInt 6)],
              JObj [(''SetNumber'', JInt 3), (''SetScore'', JInt 3)],
              JObj [(''SetNumber'', JInt 3), (''SetScore'', JInt 4)]])])])]"

definition example_record :: json where
  "example_record =
     JObj [(''match_id'', JStr ''ms001''), (''event_id'', JNull), (''event_year'', JNull),
       (''event_name'', JNull), (''tournament_name'', JNull), (''city'', JNull),
       (''surface'', JStr ''Hard''), (''round'', JNull), (''status'', JNull),
       (''is_doubles'', JNull), (''winner_id'', JNull), (''players'', JNull),
       (''score'', JArr
          [JObj [(''set'', JInt 1), (''p1'', JInt 7), (''p2'', JInt 6),
                 (''tiebreak'', JObj [(''p1'', JInt 7), (''p2'', JNull)])],
           JObj [(''set'', JInt 2), (''p1'', JInt 6), (''p2'', JNull), (''tiebreak'', JNull)],
           JObj [(''set'', JInt 3), (''p1'', JNull), (''p2'', JInt 4), (''tiebreak'', JNull)]]),
       (''duration'', JNull)]"

text \<open>
  Two payloads with one set on each side.  In \<open>payload_list_key\<close> side one writes its set
  number as the empty list; in \<open>payload_float_key\<close> side one writes the set number of
  set 1 as the float \<^verbatim>\<open>1.0\<close> and side two as the integer \<^verbatim>\<open>1\<close>.
\<close>

definition payload_list_key :: json where
  "payload_list_key =
     JObj [(''Match'', JObj [(''MatchId'', JStr ''ms001''),
        (''PlayerTeam1'', JObj [(''Sets'', JArr
           [JObj [(''SetNumber'', JArr []), (''SetScore'', JInt 6)]])]),
        (''PlayerTeam2'', JObj [(''Sets'', JArr
           [JObj [(''SetNumber'', JInt 1), (''SetScore'', JInt 4)]])])])]"

definition payload_float_key :: json where
  "payload_float_key =
     JObj [(''Match'', JObj [(''MatchId'', JStr ''ms001''),
        (''PlayerTeam1'', JObj [(''Sets'', JArr
           [JObj [(''SetNumber'', JFloat (FRat 1)), (''SetScore'', JInt 6)]])]),
        (''PlayerTeam2'', JObj [(''Sets'', JArr
           [JObj [(''SetNumber'', JInt 1), (''SetScore'', JInt 4)]])])])]"

definition record_float_key :: json where
  "record_float_key =
     JObj [(''match_id'', JStr ''ms001''), (''event_id'', JNull), (''event_year'', JNull),
       (''event_name'', JNull), (''tournament_name'', JNull), (''city'', JNull),
       (''surface'', JNull), (''round'', JNull), (''status'', JNull),
       (''is_doubles'', JNull), (''winner_id'', JNull), (''players'', JNull),
       (''score'', JNull), (''duration'', JNull)]"

section \<open>api/matches.py: the two endpoints\<close>

text \<open>
  What a request runs in: the two open built-ins, the order in which sets are iterated,
  the upstream service, and what \<^verbatim>\<open>load_tournament_registry()\<close> gives, the registry or
  the \<open>HTTPException\<close> with status 500 that it raises when the file is missing or is not
  JSON.
\<close>

record world =
  builtins_of :: builtins
  set_iter :: "json list \<Rightarrow> json list"
  client :: "string \<Rightarrow> upstream"
  registry_load :: "exc + registry"

text \<open>
  \<^verbatim>\<open>
  tournament = tournaments.get(tid_resolved)
  draw_size = int(tournament.get("SglDrawSize", 32)) if tournament else 32
  main_match_ids = generate_match_ids(draw_size)
  qualy_match_ids = generate_qualifier_ids(MAX_QUALIFIERS)
  all_match_ids = main_match_ids + qualy_match_ids
  \<close>
  \<^verbatim>\<open>if tournament\<close> is false of \<^verbatim>\<open>None\<close> and of the empty dict.
\<close>

definition candidate_ids :: "builtins \<Rightarrow> registry \<Rightarrow> string \<Rightarrow> exc + string list" where
  "candidate_ids py tournaments tid_resolved =
     (case (case map_of tournaments tid_resolved of
              Some tournament \<Rightarrow>
                if tournament \<noteq> [] then py_int py (dict_get_default tournament ''SglDrawSize'' (JInt 32))
                else Inr 32
            | None \<Rightarrow> Inr 32) of
        Inl e \<Rightarrow> Inl e
      | Inr draw_size \<Rightarrow>
          Inr (generate_match_ids (JInt draw_size) @ generate_qualifier_ids (JInt MAX_QUALIFIERS)))"

text \<open>
  \<^verbatim>\<open>
  for mid in all_match_ids:
      data = await fetch_match(client, year, tid_resolved, mid)
      if not data:
          continue
      if not _has_match_id(data):
          continue
      matches_data[mid] = flatten_match_data(data) if flatten else data
  \<close>
  An exception raised by \<^verbatim>\<open>fetch_match\<close> or by \<^verbatim>\<open>flatten_match_data\<close> ends the loop and
  the request.
\<close>

fun fetch_all :: "world \<Rightarrow> int \<Rightarrow> string \<Rightarrow> bool \<Rightarrow> string list \<Rightarrow> jdict \<Rightarrow> exc + jdict" where
  "fetch_all w year tid_resolved flatten [] matches_data = Inr matches_data"
| "fetch_all w year tid_resolved flatten (mid # mids) matches_data =
     (case fetch_match (client w) year tid_resolved mid of
        Inl e \<Rightarrow> Inl e
      | Inr data \<Rightarrow>
          if \<not> truthy data then fetch_all w year tid_resolved flatten mids matches_data
          else if \<not> has_match_id data then fetch_all w year tid_resolved flatten mids matches_data
          else if flatten then
            (case flatten_match_data (set_iter w) data of
               Inl e \<Rightarrow> Inl e
             | Inr v \<Rightarrow> fetch_all w year tid_resolved flatten mids (dict_set matches_data mid v))
          else fetch_all w year tid_resolved flatten mids (dict_set matches_data mid data))"

definition registry_name :: "registry \<Rightarrow> string \<Rightarrow> json" where
  "registry_name tournaments tid_resolved =
     (case map_of tournaments tid_resolved of
        Some tournament \<Rightarrow> if tournament \<noteq> [] then dict_get tournament ''Name'' else JStr ''Unknown''
      | None \<Rightarrow> JStr ''Unknown'')"

definition get_tournament_matches :: "world \<Rightarrow> int \<Rightarrow> string \<Rightarrow> bool \<Rightarrow> exc + json" where
  "get_tournament_matches w year tournament_id flatten =
     (case registry_load w of
        Inl e \<Rightarrow> Inl e
      | Inr tournaments \<Rightarrow>
          (case resolve_tournament_id (builtins_of w) tournament_id tournaments of
             None \<Rightarrow> Inl (HTTPException 404 ''Invalid tournament ID or name'')
           | Some tid_resolved \<Rightarrow>
               if tid_resolved = [] then Inl (HTTPException 404 ''Invalid tournament ID or name'')
               else
                 (case candidate_ids (builtins_of w) tournaments tid_resolved of
                    Inl e \<Rightarrow> Inl e
                  | Inr all_match_ids \<Rightarrow>
                      (case fetch_all w year tid_resolved flatten all_match_ids [] of
                         Inl e \<Rightarrow> Inl e
                       | Inr matches_data \<Rightarrow>
                           Inr (JObj [(''tournament'', registry_name tournaments tid_resolved),
                                      (''tournament_id'', JStr tid_resolved),
                                      (''year'', JInt year),
                                      (''matches'', JObj matches_data)])))))"

text \<open>
  \<^verbatim>\<open>
  data = await fetch_match(client, year, tid_resolved, match_id)
  if not data:
      raise HTTPException(status_code=404, detail="Match not found")
  return {"tournament": tournaments.get(tid_resolved, {}).get("Name", "Unknown"), ...,
          "match_data": flatten_match_data(data) if flatten else data}
  \<close>
\<close>

definition get_single_match :: "world \<Rightarrow> int \<Rightarrow> string \<Rightarrow> string \<Rightarrow> bool \<Rightarrow> exc + json" where
  "get_single_match w year tournament_id match_id flatten =
     (case registry_load w of
        Inl e \<Rightarrow> Inl e
      | Inr tournaments \<Rightarrow>
          (case resolve_tournament_id (builtins_of w) tournament_id tournaments of
             None \<Rightarrow> Inl (HTTPException 404 ''Invalid tournament ID or name'')
           | Some tid_resolved \<Rightarrow>
               if tid_resolved = [] then Inl (HTTPException 404 ''Invalid tournament ID or name'')
               else
                 (case fetch_match (client w) year tid_resolved match_id of
                    Inl e \<Rightarrow> Inl e
                  | Inr data \<Rightarrow>
                      if \<not> truthy data then Inl (HTTPException 404 ''Match not found'')
                      else
                        (case (if flatten then flatten_match_data (set_iter w) data else Inr data) of
                           Inl e \<Rightarrow> Inl e
                         | Inr match_data \<Rightarrow>
                             Inr (JObj [(''tournament'',
                                          dict_get_default
                                            (case map_of tournaments tid_resolved of
                                               Some t \<Rightarrow> t | None \<Rightarrow> [])
                                            ''Name'' (JStr ''Unknown'')),
                                        (''tournament_id'', JStr tid_resolved),
                                        (''year'', JInt year),
                                        (''match_id'', JStr match_id),
                                        (''match_data'', match_data)])))))"

text \<open>The \<^verbatim>\<open>matches\<close> mapping of a response of the first endpoint.\<close>

definition matches_of :: "json \<Rightarrow> jdict" where
  "matches_of resp = (case field_of resp ''matches'' of JObj kvs \<Rightarrow> kvs | _ \<Rightarrow> [])"

section \<open>utils/atp\_h2h.py: the head-to-head fetch\<close>

definition BASE_H2H_URL :: string where
  "BASE_H2H_URL = ''https://www.atptour.com/en/-/tour/Head2HeadSearch/GetHead2HeadData''"

text \<open>
  \<^verbatim>\<open>_PLAYER_CODE_RE = re.compile(r"^[A-Za-z0-9]+$")\<close>, applied with \<^verbatim>\<open>match\<close>: one or more
  ASCII letters or digits up to the end of the string, where \<^verbatim>\<open>$\<close> also accepts one
  final newline.
\<close>

definition is_alnum :: "char \<Rightarrow> bool" where
  "is_alnum c =
     (let n = (of_char c :: nat) in
      (65 \<le> n \<and> n \<le> 90) \<or> (97 \<le> n \<and> n \<le> 122) \<or> (48 \<le> n \<and> n \<le> 57))"

definition player_code_match :: "string \<Rightarrow> bool" where
  "player_code_match s =
     (let body = (if s \<noteq> [] \<and> last s = CHR 0x0A then butlast s else s)
      in body \<noteq> [] \<and> (\<forall>c \<in> set body. is_alnum c))"

text \<open>
  \<^verbatim>\<open>
  async def fetch_head_to_head(player1_id, player2_id):
      if not _PLAYER_CODE_RE.match(player1_id) or not _PLAYER_CODE_RE.match(player2_id):
          raise HTTPException(status_code=400, detail="Player IDs must be ...")
      url = f"{BASE_H2H_URL}/{player1_id}/{player2_id}"
      try:
          async with httpx.AsyncClient(...) as client:
              resp = await client.get(url)
      except httpx.RequestError:
          raise HTTPException(status_code=502, detail="Upstream ATP request failed")
      if resp.status_code == 404:
          raise HTTPException(status_code=404, detail="Head-to-head not found")
      if resp.status_code != 200:
          raise HTTPException(status_code=502,
                              detail=f"Upstream ATP error (status {resp.status_code})")
      try:
          return resp.json()
      except Exception:
          raise HTTPException(status_code=502, detail="Upstream ATP returned invalid JSON")
  \<close>
  \<^verbatim>\<open>client.get\<close> parses the URL before it sends anything: for a URL that holds an ASCII
  character that is not printable (a control character such as the newline, or DEL)
  httpx raises \<^verbatim>\<open>httpx.InvalidURL\<close>, which is not a \<^verbatim>\<open>RequestError\<close> and so leaves
  \<open>fetch_head_to_head\<close>.  The result comes with a flag that tells whether a request was
  sent to the upstream service; when redirects are followed, the outcome is that of the
  last response.
\<close>

definition non_printable_ascii :: "char \<Rightarrow> bool" where
  "non_printable_ascii c = ((of_char c :: nat) < 32 \<or> (of_char c :: nat) = 127)"

definition fetch_head_to_head :: "(string \<Rightarrow> upstream) \<Rightarrow> string \<Rightarrow> string \<Rightarrow> (exc + json) \<times> bool" where
  "fetch_head_to_head upstream_of player1_id player2_id =
     (if \<not> player_code_match player1_id \<or> \<not> player_code_match player2_id then
        (Inl (HTTPException 400 ''Player IDs must be alphanumeric ATP player codes (e.g., DH58)''),
         False)
      else
        let url = BASE_H2H_URL @ ''/'' @ player1_id @ ''/'' @ player2_id
        in if \<exists>c \<in> set url. non_printable_ascii c then (Inl InvalidURL, False)
           else
             (case upstream_of url of
                NetworkFailure \<Rightarrow> Inl (HTTPException 502 ''Upstream ATP request failed'')
              | Response status_code body \<Rightarrow>
                  if status_code = 404 then Inl (HTTPException 404 ''Head-to-head not found'')
                  else if status_code \<noteq> 200 then
                    Inl (HTTPException 502
                           (''Upstream ATP error (status '' @ str_int status_code @ '')''))
                  else case body of
                    Some v \<Rightarrow> Inr v
                  | None \<Rightarrow> Inl (HTTPException 502 ''Upstream ATP returned invalid JSON''),
              True))"

section \<open>utils/atp\_h2h.py: the head-to-head normalizer\<close>

text \<open>
  \<^verbatim>\<open>for x in v\<close>: a list gives its elements, a string its characters, a dict its keys;
  any other value that the loops below can meet (a number or \<^verbatim>\<open>True\<close>) is not iterable.
\<close>

fun py_iter :: "json \<Rightarrow> exc + json list" where
  "py_iter (JArr xs) = Inr xs"
| "py_iter (JStr s) = Inr (map (\<lambda>c. JStr [c]) s)"
| "py_iter (JObj kvs) = Inr (map (\<lambda>kv. JStr (fst kv)) kvs)"
| "py_iter v = Inl TypeError"

text \<open>
  \<^verbatim>\<open>
  upstream_sets = [{"set_number": s.get("SetNumber"), "player_games": s.get("SetScore"),
                    "player_tiebreak": s.get("TieBreakScore"), "won_set": s.get("WonSet")}
                   for s in pt.get("Sets", [])]
  \<close>
  An element that is not a dict has no \<^verbatim>\<open>get\<close>.
\<close>

fun upstream_sets_of :: "json list \<Rightarrow> exc + json list" where
  "upstream_sets_of [] = Inr []"
| "upstream_sets_of (s # sets) =
     (case s of
        JObj kvs \<Rightarrow>
          (case upstream_sets_of sets of
             Inl e \<Rightarrow> Inl e
           | Inr rest \<Rightarrow>
               Inr (JObj [(''set_number'', dict_get kvs ''SetNumber''),
                          (''player_games'', dict_get kvs ''SetScore''),
                          (''player_tiebreak'', dict_get kvs ''TieBreakScore''),
                          (''won_set'', dict_get kvs ''WonSet'')] # rest))
      | _ \<Rightarrow> Inl AttributeError)"

text \<open>
  The record appended for one match, a dict, of a tournament with the given name, year,
  surface and indoor/outdoor flag.
  \<^verbatim>\<open>
  rnd = match.get("Round") or {}
  round_short = rnd.get("ShortName") if isinstance(rnd, dict) else None
  result = match.get("ResultString")
  sets_from_result = parse_result_string(result) if result else None
  upstream_sets = None
  pt = match.get("PlayerTeam") if isinstance(match.get("PlayerTeam"), dict) else None
  if pt and isinstance(pt.get("Sets"), list):
      upstream_sets = [...]
  matches.append({...})
  \<close>
\<close>

definition h2h_match :: "json \<Rightarrow> json \<Rightarrow> json \<Rightarrow> json \<Rightarrow> jdict \<Rightarrow> exc + json" where
  "h2h_match tournament_name year surface indoor_outdoor match =
     (let rnd = py_or (dict_get match ''Round'') (JObj []);
          round_short = (case rnd of JObj kvs \<Rightarrow> dict_get kvs ''ShortName'' | _ \<Rightarrow> JNull);
          result = dict_get match ''ResultString'';
          sets_from_result = (if truthy result then parse_result_string result else JNull);
          pt = (case dict_get match ''PlayerTeam'' of JObj kvs \<Rightarrow> JObj kvs | _ \<Rightarrow> JNull)
      in case (case pt of
                 JObj kvs \<Rightarrow>
                   (if kvs \<noteq> [] then
                      (case dict_get kvs ''Sets'' of
                         JArr sets \<Rightarrow>
                           (case upstream_sets_of sets of
                              Inl e \<Rightarrow> Inl e
                            | Inr us \<Rightarrow> Inr (JArr us))
                       | _ \<Rightarrow> Inr JNull)
                    else Inr JNull)
               | _ \<Rightarrow> Inr JNull) of
           Inl e \<Rightarrow> Inl e
         | Inr upstream_sets \<Rightarrow>
             Inr (JObj [(''tournament'', tournament_name),
                        (''year'', year),
                        (''round'', round_short),
                        (''winner'', dict_get match ''Winner''),
                        (''surface'', surface),
                        (''indoor_outdoor'', indoor_outdoor),
                        (''match_id'', dict_get match ''MatchId''),
                        (''result'', result),
                        (''sets'', sets_from_result),
                        (''player_team'', dict_get match ''PlayerTeam''),
                        (''opponent_team'', dict_get match ''OpponentTeam''),
                        (''upstream_sets'', upstream_sets),
                        (''match_stats_url'', dict_get match ''MatchStatsUrl''),
                        (''reason'', dict_get match ''Reason'')]))"

text \<open>The loop over the matches of one tournament; \<open>matches\<close> is the list built so far.\<close>

fun h2h_matches_loop :: "json \<Rightarrow> json \<Rightarrow> json \<Rightarrow> json \<Rightarrow> json list \<Rightarrow> json list \<Rightarrow> exc + json list" where
  "h2h_matches_loop tournament_name year surface indoor_outdoor [] matches = Inr matches"
| "h2h_matches_loop tournament_name year surface indoor_outdoor (m # ms) matches =
     (case m of
        JObj match \<Rightarrow>
          (case h2h_match tournament_name year surface indoor_outdoor match of
             Inl e \<Rightarrow> Inl e
           | Inr entry \<Rightarrow>
               h2h_matches_loop tournament_name year surface indoor_outdoor ms (matches @ [entry]))
      | _ \<Rightarrow> h2h_matches_loop tournament_name year surface indoor_outdoor ms matches)"

text \<open>
  The loop over the tournaments of one section.
  \<^verbatim>\<open>
  tournament_name = (tournament.get("TournamentName") or tournament.get("EventDisplayName")
                     or tournament.get("EventName"))
  year = tournament.get("EventYear")
  surface = tournament.get("Surface")
  indoor_outdoor = tournament.get("InOutdoorDisplay")
  match_list = tournament.get("MatchResults") or tournament.get("Matches") or []
  for match in match_list or []: ...
  \<close>
\<close>

fun h2h_tournaments_loop :: "json list \<Rightarrow> json list \<Rightarrow> exc + json list" where
  "h2h_tournaments_loop [] matches = Inr matches"
| "h2h_tournaments_loop (t # ts) matches =
     (case t of
        JObj tournament \<Rightarrow>
          (let tournament_name = py_or (py_or (dict_get tournament ''TournamentName'')
                                              (dict_get tournament ''EventDisplayName''))
                                       (dict_get tournament ''EventName'');
               year = dict_get tournament ''EventYear'';
               surface = dict_get tournament ''Surface'';
               indoor_outdoor = dict_get tournament ''InOutdoorDisplay'';
               match_list = py_or (py_or (dict_get tournament ''MatchResults'')
                                         (dict_get tournament ''Matches''))
                                  (JArr [])
           in case py_iter (py_or match_list (JArr [])) of
                Inl e \<Rightarrow> Inl e
              | Inr ms \<Rightarrow>
                  (case h2h_matches_loop tournament_name year surface indoor_outdoor ms matches of
                     Inl e \<Rightarrow> Inl e
                   | Inr matches' \<Rightarrow> h2h_tournaments_loop ts matches'))
      | _ \<Rightarrow> h2h_tournaments_loop ts matches)"

text \<open>
  \<^verbatim>\<open>
  def flatten_h2h_matches(raw_json):
      matches = []
      for section in ["Tournaments", "OtherTournaments"]:
          for tournament in raw_json.get(section, []) or []:
              ...
      return matches
  \<close>
  A payload that is not a dict has no \<^verbatim>\<open>get\<close>.
\<close>

definition h2h_section :: "jdict \<Rightarrow> string \<Rightarrow> json list \<Rightarrow> exc + json list" where
  "h2h_section raw_json section matches =
     (case py_iter (py_or (dict_get_default raw_json section (JArr [])) (JArr [])) of
        Inl e \<Rightarrow> Inl e
      | Inr ts \<Rightarrow> h2h_tournaments_loop ts matches)"

definition flatten_h2h_matches :: "json \<Rightarrow> exc + json list" where
  "flatten_h2h_matches raw_json =
     (case raw_json of
        JObj raw \<Rightarrow>
          (case h2h_section raw ''Tournaments'' [] of
             Inl e \<Rightarrow> Inl e
           | Inr matches \<Rightarrow> h2h_section raw ''OtherTournaments'' matches)
      | _ \<Rightarrow> Inl AttributeError)"

text \<open>A head-to-head payload with one tournament in each section, used as an example.\<close>

definition example_h2h :: jdict where
  "example_h2h =
     [(''playerLeft'', JObj [(''PlayerId'', JStr ''DH58'')]),
      (''Tournaments'', JArr
         [JObj [(''EventDisplayName'', JStr ''Doha''), (''EventYear'', JInt 2024),
                (''Matches'', JArr
                   [JObj [(''MatchId'', JStr ''ms001''),
                          (''Round'', JObj [(''ShortName'', JStr ''F'')]),
                          (''ResultString'', JStr ''64 76(7)'')]])]]),
      (''OtherTournaments'', JArr
         [JObj [(''TournamentName'', JStr ''Davis Cup''),
                (''MatchResults'', JArr
                   [JObj [(''MatchId'', JStr ''ms002''),
                          (''PlayerTeam'', JObj [(''Sets'', JArr
                             [JObj [(''SetNumber'', JInt 1), (''SetScore'', JInt 6)]])])]])]])]"

section \<open>Example worlds\<close>

text \<open>
  The registry is the Doha registry.  In \<open>world_two\<close> the upstream service has the matches
  ms001 and ms002 of 2024 and answers 404 to everything else; in \<open>world_timeout\<close> the
  request for ms002 times out instead.
\<close>

definition payload_of :: "string \<Rightarrow> json" where
  "payload_of mid = JObj [(''Match'', JObj [(''MatchId'', JStr mid)])]"

definition upstream_two :: "string \<Rightarrow> upstream" where
  "upstream_two url =
     (if url = match_url 2024 ''580'' ''ms001'' then Response 200 (Some (payload_of ''ms001''))
      else if url = match_url 2024 ''580'' ''ms002'' then Response 200 (Some (payload_of ''ms002''))
      else Response 404 None)"

definition upstream_timeout :: "string \<Rightarrow> upstream" where
  "upstream_timeout url =
     (if url = match_url 2024 ''580'' ''ms001'' then Response 200 (Some (payload_of ''ms001''))
      else if url = match_url 2024 ''580'' ''ms002'' then NetworkFailure
      else Response 404 None)"

definition world_two :: world where
  "world_two = \<lparr>builtins_of = plain_builtins, set_iter = rev, client = upstream_two,
                 registry_load = Inr doha\<rparr>"

definition world_timeout :: world where
  "world_timeout = \<lparr>builtins_of = plain_builtins, set_iter = rev, client = upstream_timeout,
                     registry_load = Inr doha\<rparr>"

text \<open>
  In \<open>world_empty\<close> the upstream service answers 200 to every request of 2024 for Doha:
  for ms001 with a payload whose match identifier is the empty string, for ms002 with the
  body \<^verbatim>\<open>null\<close>, and with the empty object otherwise.
\<close>

definition upstream_empty :: "string \<Rightarrow> upstream" where
  "upstream_empty url =
     (if url = match_url 2024 ''580'' ''ms001'' then Response 200 (Some (JObj [(''MatchId'', JStr '''')]))
      else if url = match_url 2024 ''580'' ''ms002'' then Response 200 (Some JNull)
      else Response 200 (Some (JObj [])))"

definition world_empty :: world where
  "world_empty = \<lparr>builtins_of = plain_builtins, set_iter = rev, client = upstream_empty,
                   registry_load = Inr doha\<rparr>"

section \<open>Facts about decimal formatting\<close>


lemma digit_char_val:
  assumes "d < 10"
  shows "digit_val (digit_char d) = d \<and> is_ascii_digit (digit_char d)"
proof -
  from assms have "d \<in> {0, 1, 2, 3, 4, 5, 6, 7, 8, 9}" by auto
  then show ?thesis
    by (auto simp: digit_char_def digit_val_def is_ascii_digit_def)
qed

lemma dec_value_snoc: "dec_value (s @ [c]) = 10 * dec_value s + digit_val c"
  by (simp add: dec_value_def)

lemma dec_value_zeros: "dec_value (replicate k (CHR ''0'') @ s) = dec_value s"
proof (induction k)
  case 0
  show ?case by simp
next
  case (Suc k)
  have "foldl (\<lambda>acc c. 10 * acc + digit_val c) 0 (CHR ''0'' # replicate k (CHR ''0'') @ s)
        = foldl (\<lambda>acc c. 10 * acc + digit_val c) 0 (replicate k (CHR ''0'') @ s)"
    by (simp add: digit_val_def)
  with Suc show ?case by (simp add: dec_value_def)
qed

lemma digits10_value: "dec_value (digits10 n) = n"
proof (induction n rule: digits10.induct)
  case (1 n)
  show ?case
  proof (cases "n < 10")
    case True
    then show ?thesis
      by (subst digits10.simps) (simp add: dec_value_def digit_char_val)
  next
    case False
    then have "dec_value (digits10 (n div 10)) = n div 10" using 1 by simp
    with False show ?thesis
      by (subst digits10.simps) (simp add: dec_value_snoc digit_char_val)
  qed
qed

lemma digits10_digits: "\<forall>c \<in> set (digits10 n). is_ascii_digit c"
proof (induction n rule: digits10.induct)
  case (1 n)
  show ?case
    by (subst digits10.simps) (use 1 in \<open>auto simp: digit_char_val\<close>)
qed

lemma digits10_length: "n < 1000 \<Longrightarrow> length (digits10 n) \<le> 3"
  by (subst digits10.simps, simp, subst digits10.simps, simp, subst digits10.simps, simp)

lemma fmt03_value: "dec_value (fmt03 i) = i"
  by (simp add: fmt03_def Let_def dec_value_zeros digits10_value)

lemma fmt03_digits: "\<forall>c \<in> set (fmt03 i). is_ascii_digit c"
proof -
  have z: "is_ascii_digit (CHR ''0'')" by (simp add: is_ascii_digit_def)
  show ?thesis using digits10_digits [of i] z by (auto simp: fmt03_def Let_def)
qed

lemma fmt03_length: "3 \<le> length (fmt03 i) \<and> (i < 1000 \<longrightarrow> length (fmt03 i) = 3)"
  using digits10_length [of i] by (auto simp: fmt03_def Let_def)

lemma fmt03_inj: "fmt03 i = fmt03 j \<Longrightarrow> i = j"
proof -
  assume "fmt03 i = fmt03 j"
  then have "dec_value (fmt03 i) = dec_value (fmt03 j)" by simp
  then show "i = j" by (simp only: fmt03_value)
qed


lemma upto_as_upt: "map f [1..n] = map (\<lambda>k. f (int k)) [1..<Suc (nat n)]"
proof (cases "1 \<le> n")
  case True
  have "[1..n] = map int [1..<Suc (nat n)]"
  proof (rule nth_equalityI)
    show "length [1..n] = length (map int [1..<Suc (nat n)])" using True by simp
  next
    fix i assume "i < length [1..n]"
    then show "[1..n] ! i = map int [1..<Suc (nat n)] ! i"
      using True by (simp add: nth_upto del: upt_Suc)
  qed
  then show ?thesis by (simp add: comp_def del: upt_Suc)
next
  case False
  then show ?thesis by simp
qed

section \<open>The main-draw identifier generator\<close>

text \<open>
  Claim C6.  For an integer draw size \<open>D \<ge> 2\<close> the generator returns exactly \<open>D - 1\<close>
  identifiers: for \<open>i = 1, \<dots>, D - 1\<close> in ascending order, the marker \<open>ms\<close> followed by the
  zero-padded sequence number \<open>fmt03 i\<close>.  For \<open>D < 2\<close> and for an argument that is not an
  integer it returns the empty list.  The sequence number is made of decimal digits,
  denotes \<open>i\<close>, and has three characters whenever \<open>i < 1000\<close> (never fewer).
\<close>

theorem generate_match_ids_spec:
  "(2 \<le> D \<longrightarrow>
      generate_match_ids (JInt D) = map (\<lambda>i. ''ms'' @ fmt03 i) [1..<nat D]
      \<and> int (length (generate_match_ids (JInt D))) = D - 1)
   \<and> (D < 2 \<longrightarrow> generate_match_ids (JInt D) = [])
   \<and> (\<not> is_int v \<longrightarrow> generate_match_ids v = [])
   \<and> dec_value (fmt03 i) = i
   \<and> (\<forall>c \<in> set (fmt03 i). is_ascii_digit c)
   \<and> 3 \<le> length (fmt03 i)
   \<and> (i < 1000 \<longrightarrow> length (fmt03 i) = 3)"
proof -
  have ids: "generate_match_ids (JInt D) = map (\<lambda>i. ''ms'' @ fmt03 i) [1..<nat D]"
    if "2 \<le> D"
  proof -
    have "Suc (nat (D - 1)) = nat D" using that by simp
    with that show ?thesis
      by (simp add: generate_match_ids_def Let_def upto_as_upt del: upt_Suc)
  qed
  have len: "int (length (generate_match_ids (JInt D))) = D - 1" if "2 \<le> D"
    using that by (simp add: ids)
  have small: "generate_match_ids (JInt D) = []" if "D < 2"
    using that by (simp add: generate_match_ids_def)
  have other: "generate_match_ids v = []" if "\<not> is_int v"
    using that by (simp add: generate_match_ids_def)
  show ?thesis
  proof (intro conjI impI)
    show "generate_match_ids (JInt D) = map (\<lambda>i. ''ms'' @ fmt03 i) [1..<nat D]" if "2 \<le> D"
      using that by (rule ids)
    show "int (length (generate_match_ids (JInt D))) = D - 1" if "2 \<le> D"
      using that by (rule len)
    show "generate_match_ids (JInt D) = []" if "D < 2"
      using that by (rule small)
    show "generate_match_ids v = []" if "\<not> is_int v"
      using that by (rule other)
    show "dec_value (fmt03 i) = i" by (rule fmt03_value)
    show "\<forall>c \<in> set (fmt03 i). is_ascii_digit c" by (rule fmt03_digits)
    show "3 \<le> length (fmt03 i)" using fmt03_length by blast
    show "length (fmt03 i) = 3" if "i < 1000" using that fmt03_length by blast
  qed
qed



theorem generate_match_ids_spec_witness:
  "(2::int) \<le> 4 \<and> generate_match_ids (JInt 4) = [''ms001'', ''ms002'', ''ms003'']
   \<and> generate_match_ids (JInt 1) = [] \<and> generate_match_ids (JStr ''32'') = []
   \<and> fmt03 31 = ''031''"
proof -
  have s4: "generate_match_ids (JInt 4) = map (\<lambda>i. ''ms'' @ fmt03 i) [1..<nat 4]"
    using generate_match_ids_spec [of 4 JNull 0] by (elim conjE) simp
  have b: "generate_match_ids (JInt 1) = []"
    using generate_match_ids_spec [of 1 JNull 0] by (elim conjE) simp
  have c: "generate_match_ids (JStr ''32'') = []"
    using generate_match_ids_spec [of 0 "JStr ''32''" 0] by (elim conjE) simp
  have d: "map (\<lambda>i. ''ms'' @ fmt03 i) [1..<nat 4] = [''ms001'', ''ms002'', ''ms003'']"
    by code_simp
  have e: "fmt03 31 = ''031''" by code_simp
  show ?thesis using s4 b c d e by simp
qed

section \<open>Facts about strings and the result-string parser\<close>

lemmas char_eval = char_of_def bit_Suc_0_iff

lemma markers_upper: "m \<in> set markers \<Longrightarrow> py_upper m = m"
  by (auto simp: markers_def py_upper_def upper_char_def char_eval)

lemma is_marker_iff: "is_marker tok \<longleftrightarrow> py_upper tok \<in> set markers"
proof
  assume "is_marker tok"
  then obtain m where m: "m \<in> set markers" "py_upper tok = py_upper m"
    by (auto simp: is_marker_def ci_equal_def)
  then show "py_upper tok \<in> set markers" by (simp add: markers_upper)
next
  assume a: "py_upper tok \<in> set markers"
  then have "ci_equal tok (py_upper tok)"
    by (simp add: ci_equal_def markers_upper)
  with a show "is_marker tok" unfolding is_marker_def by blast
qed

lemma set_token_match_tb: "set_token_match tok = Some (digits, Some t) \<Longrightarrow> t \<noteq> []"
  by (auto simp: set_token_match_def Let_def split: if_splits)

lemma parse_loop_spec:
  "parse_loop toks out (int n) = out @ map tuple_json (spec_sets (Suc n) toks)"
proof (induction toks arbitrary: out n)
  case Nil
  show ?case by simp
next
  case (Cons tok toks)
  show ?case
  proof (cases "is_marker tok")
    case True
    then show ?thesis by (simp add: is_marker_iff)
  next
    case nm: False
    show ?thesis
    proof (cases "set_token_match tok")
      case None
      with nm Cons show ?thesis by (simp add: is_marker_iff token_games_def)
    next
      case (Some p)
      obtain digits tb where p: "p = (digits, tb)" by (cases p)
      show ?thesis
      proof (cases "length digits < 2")
        case True
        with nm Some p Cons show ?thesis by (simp add: is_marker_iff token_games_def)
      next
        case False
        have tbj: "(case tb of None \<Rightarrow> JNull | Some t \<Rightarrow> if t \<noteq> [] then JInt (int (dec_value t)) else JNull)
              = (case map_option dec_value tb of None \<Rightarrow> JNull | Some k \<Rightarrow> JInt (int k))"
          using Some p set_token_match_tb by (cases tb) auto
        from False nm Some p Cons [of _ "Suc n"] tbj show ?thesis
          by (simp add: is_marker_iff token_games_def Let_def add.commute)
      qed
    qed
  qed
qed

lemma spec_sets_numbers:
  "map fst (spec_sets n toks) = [n..<n + length (spec_sets n toks)]"
proof (induction toks arbitrary: n)
  case Nil
  show ?case by simp
next
  case (Cons tok toks)
  show ?case
    using Cons [of n] Cons [of "Suc n"]
    by (auto simp: upt_rec [of n] split: option.splits)
qed

lemma split_ws_drop: "split_ws [] (dropWhile is_space s) = split_ws [] s"
  by (induction s) auto

lemma split_ws_trail: "\<forall>c \<in> set ws. is_space c \<Longrightarrow> split_ws cur (s @ ws) = split_ws cur s"
proof (induction s arbitrary: cur)
  case Nil
  then show ?case by (induction ws arbitrary: cur) auto
next
  case (Cons c s)
  then show ?case by simp
qed

lemma rev_dropWhile_rev: "\<exists>ws. s = rev (dropWhile P (rev s)) @ ws \<and> (\<forall>c \<in> set ws. P c)"
proof -
  have "rev s = takeWhile P (rev s) @ dropWhile P (rev s)" by simp
  then have "s = rev (dropWhile P (rev s)) @ rev (takeWhile P (rev s))"
    by (metis rev_append rev_rev_ident)
  moreover have "\<forall>c \<in> set (rev (takeWhile P (rev s))). P c"
    by (auto dest: set_takeWhileD)
  ultimately show ?thesis by blast
qed

lemma py_split_strip: "py_split (py_strip s) = py_split s"
proof -
  obtain ws where ws: "dropWhile is_space s = rev (dropWhile is_space (rev (dropWhile is_space s))) @ ws"
     "\<forall>c \<in> set ws. is_space c"
    using rev_dropWhile_rev [of "dropWhile is_space s" is_space] by blast
  have "split_ws [] (py_strip s) = split_ws [] (py_strip s @ ws)"
    using ws(2) by (simp add: split_ws_trail)
  also have "\<dots> = split_ws [] (dropWhile is_space s)"
    using ws(1) by (simp add: py_strip_def)
  finally show ?thesis by (simp add: py_split_def split_ws_drop)
qed

lemma token_digits:
  assumes "\<forall>c \<in> set ds. is_ascii_digit c" "2 \<le> length ds"
  shows "token_games ds = Some (digit_val (ds ! 0), digit_val (ds ! 1), None)"
proof -
  have a: "takeWhile is_ascii_digit ds = ds" and b: "dropWhile is_ascii_digit ds = []"
    using assms(1) by simp_all
  have e: "ds \<noteq> []" using assms(2) by auto
  show ?thesis using assms(2) e
    by (simp add: token_games_def set_token_match_def a b)
qed

lemma token_tiebreak:
  assumes "\<forall>c \<in> set ds. is_ascii_digit c" "2 \<le> length ds"
    and "\<forall>c \<in> set ts. is_ascii_digit c" "ts \<noteq> []"
  shows "token_games (ds @ ''('' @ ts @ '')'')
         = Some (digit_val (ds ! 0), digit_val (ds ! 1), Some (dec_value ts))"
proof -
  define tok where "tok = ds @ ''('' @ ts @ '')''"
  have np: "\<not> is_ascii_digit (CHR ''('')" "\<not> is_ascii_digit (CHR '')'')"
    by (simp_all add: is_ascii_digit_def)
  have a: "takeWhile is_ascii_digit tok = ds"
    using assms(1) np by (simp add: tok_def takeWhile_append2)
  have b: "dropWhile is_ascii_digit tok = CHR ''('' # ts @ '')''"
    using assms(1) np by (simp add: tok_def dropWhile_append2)
  have c: "takeWhile is_ascii_digit (ts @ '')'') = ts"
    using assms(3) np by (simp add: takeWhile_append2)
  have d: "dropWhile is_ascii_digit (ts @ '')'') = '')''"
    using assms(3) np by (simp add: dropWhile_append2)
  have e: "ds \<noteq> []" using assms(2) by auto
  have "set_token_match tok = Some (ds, Some ts)"
    using assms(4) e by (simp add: set_token_match_def Let_def a b c d)
  then show ?thesis using assms(2)
    by (simp add: token_games_def tok_def)
qed

lemma token_reject:
  assumes "length (takeWhile is_ascii_digit tok) < 2"
  shows "token_games tok = None"
  using assms
  by (auto simp: token_games_def set_token_match_def Let_def split: option.splits if_splits)

lemma parse_result_string_sets:
  "parse_result_string (JStr s) =
     (let sets = spec_sets 1 (py_split s) in if sets = [] then JNull else JArr (map tuple_json sets))"
proof -
  have "parse_loop (py_split s) [] 0 = map tuple_json (spec_sets 1 (py_split s))"
    using parse_loop_spec [of "py_split s" "[]" 0] by simp
  then show ?thesis
    by (cases "s = []") (simp_all add: parse_result_string_def py_split_strip Let_def, simp add: py_split_def)
qed


lemma marker_examples:
  "is_marker ''RET'' \<and> is_marker ''ret'' \<and> is_marker ''W/o'' \<and> is_marker ''wo''
   \<and> is_marker ''Def'' \<and> is_marker ''abn'' \<and> is_marker ''bye'' \<and> is_marker ''Canc''
   \<and> \<not> is_marker ''RETD'' \<and> \<not> is_marker ''64''"
  by (simp add: is_marker_iff markers_def py_upper_def upper_char_def char_eval)

lemma parse_examples:
  "parse_result_string (JStr ''64 76(7) 63'')
     = JArr [set_entry 1 6 4 JNull, set_entry 2 7 6 (JInt 7), set_entry 3 6 3 JNull]"
  "parse_result_string (JStr ''61 2 RET'') = JArr [set_entry 1 6 1 JNull]"
  by code_simp+

text \<open>
  Claim C2.  The parser splits the result string at white space and goes through the
  tokens in order (\<open>spec_sets\<close>): a token equal, without regard to case, to one of RET,
  W/O, WO, DEF, ABN, BYE, CANC ends the parse and the sets recorded before it are kept; a
  rejected token, in particular one with fewer than two leading digits, is passed over; an
  accepted token, \<open>dd\<close> or \<open>dd(t)\<close>, gives a set with the first digit as side one's games,
  the second digit as side two's and \<open>t\<close> as the tiebreak; the sets are numbered 1, 2, 3,
  \<dots> over the accepted tokens.  \<open>64 76(7) 63\<close> gives the three sets (1,6,4), (2,7,6 with
  tiebreak 7), (3,6,3), and \<open>61 2 RET\<close> gives the one set (1,6,1).
\<close>

theorem parse_result_string_spec:
  "parse_result_string (JStr s) =
     (let sets = spec_sets 1 (py_split s)
      in if sets = [] then JNull else JArr (map tuple_json sets))
   \<and> map fst (spec_sets n toks) = [n..<n + length (spec_sets n toks)]
   \<and> (is_marker tok \<longrightarrow> spec_sets n (pre @ tok # toks) = spec_sets n pre)
   \<and> ((\<forall>c \<in> set ds. is_ascii_digit c) \<and> 2 \<le> length ds \<longrightarrow>
        token_games ds = Some (digit_val (ds ! 0), digit_val (ds ! 1), None))
   \<and> ((\<forall>c \<in> set ds. is_ascii_digit c) \<and> 2 \<le> length ds
        \<and> (\<forall>c \<in> set ts. is_ascii_digit c) \<and> ts \<noteq> [] \<longrightarrow>
        token_games (ds @ ''('' @ ts @ '')'')
          = Some (digit_val (ds ! 0), digit_val (ds ! 1), Some (dec_value ts)))
   \<and> (length (takeWhile is_ascii_digit tok') < 2 \<longrightarrow> token_games tok' = None)
   \<and> is_marker ''ret'' \<and> is_marker ''W/o'' \<and> is_marker ''Canc''
   \<and> parse_result_string (JStr ''64 76(7) 63'')
       = JArr [set_entry 1 6 4 JNull, set_entry 2 7 6 (JInt 7), set_entry 3 6 3 JNull]
   \<and> parse_result_string (JStr ''61 2 RET'') = JArr [set_entry 1 6 1 JNull]"
proof (intro conjI impI)
  show "parse_result_string (JStr s) =
     (let sets = spec_sets 1 (py_split s)
      in if sets = [] then JNull else JArr (map tuple_json sets))"
    by (rule parse_result_string_sets)
  show "map fst (spec_sets n toks) = [n..<n + length (spec_sets n toks)]"
    by (rule spec_sets_numbers)
  show "spec_sets n (pre @ tok # toks) = spec_sets n pre" if "is_marker tok"
    using that by (induction pre arbitrary: n) (auto split: option.splits)
  show "token_games ds = Some (digit_val (ds ! 0), digit_val (ds ! 1), None)"
    if "(\<forall>c \<in> set ds. is_ascii_digit c) \<and> 2 \<le> length ds"
    using that token_digits by blast
  show "token_games (ds @ ''('' @ ts @ '')'')
          = Some (digit_val (ds ! 0), digit_val (ds ! 1), Some (dec_value ts))"
    if "(\<forall>c \<in> set ds. is_ascii_digit c) \<and> 2 \<le> length ds
        \<and> (\<forall>c \<in> set ts. is_ascii_digit c) \<and> ts \<noteq> []"
    using that token_tiebreak by blast
  show "token_games tok' = None" if "length (takeWhile is_ascii_digit tok') < 2"
    using that by (rule token_reject)
  show "is_marker ''ret''" "is_marker ''W/o''" "is_marker ''Canc''"
    using marker_examples by blast+
  show "parse_result_string (JStr ''64 76(7) 63'')
       = JArr [set_entry 1 6 4 JNull, set_entry 2 7 6 (JInt 7), set_entry 3 6 3 JNull]"
    by (rule parse_examples(1))
  show "parse_result_string (JStr ''61 2 RET'') = JArr [set_entry 1 6 1 JNull]"
    by (rule parse_examples(2))
qed

theorem parse_result_string_spec_witness:
  "is_marker ''ret''
   \<and> spec_sets 1 ([''61'', ''2''] @ ''ret'' # [''64'']) = [(1, 6, 1, None)]
   \<and> token_games ''76(7)'' = Some (7, 6, Some 7)
   \<and> token_games ''64'' = Some (6, 4, None)
   \<and> token_games ''2'' = None
   \<and> parse_result_string (JStr ''61 2 ret 64'') = JArr [set_entry 1 6 1 JNull]"
proof -
  note t = parse_result_string_spec
    [of "''61 2 ret 64''" 1 "[''64'']" "''ret''" "[''61'', ''2'']" "''76''" "''7''" "''2''"]
  have m: "is_marker ''ret''" using t by blast
  have dg: "\<forall>c \<in> set ''76''. is_ascii_digit c" "\<forall>c \<in> set ''7''. is_ascii_digit c"
    by (simp_all add: is_ascii_digit_def)
  have dv: "digit_val (CHR ''7'') = 7" "digit_val (CHR ''6'') = 6" "dec_value ''7'' = 7"
    by (simp_all add: digit_val_def dec_value_def)
  have a: "token_games ''76(7)'' = Some (7, 6, Some 7)"
    using t dg dv by simp
  have b: "token_games ''2'' = None"
    using t by (simp add: is_ascii_digit_def)
  have c: "token_games ''64'' = Some (6, 4, None)"
    using parse_result_string_spec [where ds = "''64''"]
    by (simp add: is_ascii_digit_def digit_val_def)
  have pre: "spec_sets 1 [''61'', ''2''] = [(1, 6, 1, None)]"
    by code_simp
  have d: "spec_sets 1 ([''61'', ''2''] @ ''ret'' # [''64'']) = [(1, 6, 1, None)]"
    using t m pre by simp
  have sp: "py_split ''61 2 ret 64'' = [''61'', ''2''] @ ''ret'' # [''64'']"
    by (simp add: py_split_def is_space_def)
  have e: "parse_result_string (JStr ''61 2 ret 64'') = JArr [set_entry 1 6 1 JNull]"
    using t d sp by (simp add: Let_def)
  show ?thesis using m a b c d e by simp
qed

section \<open>The identifier resolver\<close>

lemma doha_examples:
  "resolve_tournament_id py ''580'' doha = Some ''580''"
  "resolve_tournament_id py ''doha'' doha = Some ''580''"
  "resolve_tournament_id py ''DOHA'' doha = Some ''580''"
  "resolve_tournament_id py ''9999'' doha = Some ''9999''"
  "resolve_tournament_id py ''not-a-thing'' doha = None"
  by (simp_all add: resolve_tournament_id_def doha_def name_matches_def display_name_def dict_get_default_def
      py_lower_def lower_char_def char_eval py_isdigit_def isdigit_char_def is_ascii_digit_def)

lemma superscript:
  "resolve_tournament_id py [CHR 0xB2] doha = Some [CHR 0xB2]"
  by (simp add: resolve_tournament_id_def doha_def name_matches_def display_name_def dict_get_default_def
      py_lower_def lower_char_def char_eval py_isdigit_def isdigit_char_def is_ascii_digit_def)

lemma find_first:
  "find P xs = Some x \<Longrightarrow> \<exists>pre post. xs = pre @ x # post \<and> P x \<and> (\<forall>y \<in> set pre. \<not> P y)"
proof (induction xs)
  case Nil
  then show ?case by simp
next
  case (Cons a xs)
  show ?case
  proof (cases "P a")
    case True
    with Cons.prems have "x = a" by simp
    with True have "a # xs = [] @ x # xs \<and> P x \<and> (\<forall>y \<in> set []. \<not> P y)" by simp
    then show ?thesis by blast
  next
    case False
    with Cons obtain pre post where "xs = pre @ x # post" "P x" "\<forall>y \<in> set pre. \<not> P y"
      by auto
    with False have "a # xs = (a # pre) @ x # post \<and> P x \<and> (\<forall>y \<in> set (a # pre). \<not> P y)"
      by simp
    then show ?thesis by blast
  qed
qed

lemma resolve_exact:
  assumes "key \<in> fst ` set tournaments"
  shows "resolve_tournament_id py key tournaments = Some key"
proof -
  from assms have "map_of tournaments key \<noteq> None" by (simp add: map_of_eq_None_iff)
  then show ?thesis by (simp add: resolve_tournament_id_def)
qed

lemma resolve_name:
  assumes "key \<notin> fst ` set tournaments"
    and "\<exists>(tid, t) \<in> set tournaments. py_lower (display_name py t) = py_lower key"
  shows "\<exists>pre tid t post. tournaments = pre @ (tid, t) # post
           \<and> py_lower (display_name py t) = py_lower key
           \<and> (\<forall>(i, r) \<in> set pre. py_lower (display_name py r) \<noteq> py_lower key)
           \<and> resolve_tournament_id py key tournaments = Some tid"
proof -
  let ?P = "\<lambda>(tid, t). name_matches py (py_lower key) t"
  from assms(1) have m: "map_of tournaments key = None" by (simp add: map_of_eq_None_iff)
  from assms(2) have "\<exists>x \<in> set tournaments. ?P x" by (auto simp: name_matches_def)
  then obtain x where x: "find ?P tournaments = Some x"
    by (cases "find ?P tournaments") (auto simp: find_None_iff)
  obtain tid t where xt: "x = (tid, t)" by (cases x)
  from find_first [OF x] obtain pre post where
    sp: "tournaments = pre @ x # post" "?P x" "\<forall>y \<in> set pre. \<not> ?P y" by blast
  have r: "resolve_tournament_id py key tournaments = Some tid"
    using m x xt by (simp add: resolve_tournament_id_def)
  have "tournaments = pre @ (tid, t) # post
           \<and> py_lower (display_name py t) = py_lower key
           \<and> (\<forall>(i, r) \<in> set pre. py_lower (display_name py r) \<noteq> py_lower key)
           \<and> resolve_tournament_id py key tournaments = Some tid"
    using sp xt r by (auto simp: name_matches_def)
  then show ?thesis by blast
qed

lemma resolve_fallback:
  assumes "key \<notin> fst ` set tournaments"
    and "\<forall>(tid, t) \<in> set tournaments. py_lower (display_name py t) \<noteq> py_lower key"
  shows "resolve_tournament_id py key tournaments = (if py_isdigit key then Some key else None)"
proof -
  let ?P = "\<lambda>(tid, t). name_matches py (py_lower key) t"
  from assms(1) have m: "map_of tournaments key = None" by (simp add: map_of_eq_None_iff)
  from assms(2) have "find ?P tournaments = None"
    by (auto simp: find_None_iff name_matches_def)
  with m show ?thesis by (simp add: resolve_tournament_id_def)
qed

lemma decimal_isdigit:
  "key \<noteq> [] \<Longrightarrow> \<forall>c \<in> set key. is_ascii_digit c \<Longrightarrow> py_isdigit key"
  by (simp add: py_isdigit_def isdigit_char_def)



text \<open>
  Claim C5, as amended.  Resolution applies its rules in order and the first that
  applies decides: (1) an input equal to a registry identifier resolves to itself;
  (2) otherwise, an input equal without regard to case to the display name of some record
  resolves to that record's identifier (the first such record); (3) otherwise, an input
  of which \<^verbatim>\<open>str.isdigit\<close> is true resolves to itself: every string of decimal digits that is
  not empty is such an input, and so are strings with other digit characters;
  (4) otherwise resolution fails.  With the registry holding the one record of identifier
  580 and name Doha, the inputs 580, doha and DOHA resolve to 580, the input 9999 to
  itself, and not-a-thing fails.
\<close>

theorem resolve_tournament_id_rules:
  "(key \<in> fst ` set tournaments \<longrightarrow> resolve_tournament_id py key tournaments = Some key)
   \<and> (key \<notin> fst ` set tournaments
        \<and> (\<exists>(tid, t) \<in> set tournaments. py_lower (display_name py t) = py_lower key) \<longrightarrow>
        (\<exists>pre tid t post. tournaments = pre @ (tid, t) # post
           \<and> py_lower (display_name py t) = py_lower key
           \<and> (\<forall>(i, r) \<in> set pre. py_lower (display_name py r) \<noteq> py_lower key)
           \<and> resolve_tournament_id py key tournaments = Some tid))
   \<and> (key \<notin> fst ` set tournaments
        \<and> (\<forall>(tid, t) \<in> set tournaments. py_lower (display_name py t) \<noteq> py_lower key) \<longrightarrow>
        resolve_tournament_id py key tournaments = (if py_isdigit key then Some key else None))
   \<and> (key \<noteq> [] \<and> (\<forall>c \<in> set key. is_ascii_digit c) \<longrightarrow> py_isdigit key)
   \<and> \<not> py_isdigit []
   \<and> resolve_tournament_id py ''580'' doha = Some ''580''
   \<and> resolve_tournament_id py ''doha'' doha = Some ''580''
   \<and> resolve_tournament_id py ''DOHA'' doha = Some ''580''
   \<and> resolve_tournament_id py ''9999'' doha = Some ''9999''
   \<and> resolve_tournament_id py ''not-a-thing'' doha = None"
proof (intro conjI impI)
  show "resolve_tournament_id py key tournaments = Some key"
    if "key \<in> fst ` set tournaments"
    using that by (rule resolve_exact)
  show "\<exists>pre tid t post. tournaments = pre @ (tid, t) # post
           \<and> py_lower (display_name py t) = py_lower key
           \<and> (\<forall>(i, r) \<in> set pre. py_lower (display_name py r) \<noteq> py_lower key)
           \<and> resolve_tournament_id py key tournaments = Some tid"
    if "key \<notin> fst ` set tournaments
        \<and> (\<exists>(tid, t) \<in> set tournaments. py_lower (display_name py t) = py_lower key)"
    using that resolve_name [of key tournaments py] by blast
  show "resolve_tournament_id py key tournaments = (if py_isdigit key then Some key else None)"
    if "key \<notin> fst ` set tournaments
        \<and> (\<forall>(tid, t) \<in> set tournaments. py_lower (display_name py t) \<noteq> py_lower key)"
    using that resolve_fallback [of key tournaments py] by blast
  show "py_isdigit key" if "key \<noteq> [] \<and> (\<forall>c \<in> set key. is_ascii_digit c)"
    using that decimal_isdigit by blast
  show "\<not> py_isdigit []" by (simp add: py_isdigit_def)
  show "resolve_tournament_id py ''580'' doha = Some ''580''"
    by (rule doha_examples(1))
  show "resolve_tournament_id py ''doha'' doha = Some ''580''"
    by (rule doha_examples(2))
  show "resolve_tournament_id py ''DOHA'' doha = Some ''580''"
    by (rule doha_examples(3))
  show "resolve_tournament_id py ''9999'' doha = Some ''9999''"
    by (rule doha_examples(4))
  show "resolve_tournament_id py ''not-a-thing'' doha = None"
    by (rule doha_examples(5))
qed

theorem resolve_tournament_id_rules_witness:
  "''580'' \<in> fst ` set doha
   \<and> resolve_tournament_id plain_builtins ''580'' doha = Some ''580''
   \<and> ''7'' \<notin> fst ` set doha
   \<and> resolve_tournament_id plain_builtins ''7'' doha = Some ''7''
   \<and> resolve_tournament_id plain_builtins ''x7'' doha = None
   \<and> ''DoHa'' \<notin> fst ` set doha
   \<and> resolve_tournament_id plain_builtins ''DoHa'' doha = Some ''580''"
proof -
  have lw: "py_lower ''Doha'' = ''doha''" "py_lower ''DoHa'' = ''doha''"
    "py_lower ''7'' = ''7''" "py_lower ''x7'' = ''x7''"
    by (simp_all add: py_lower_def lower_char_def char_eval)
  have dn: "display_name plain_builtins [(''Id'', JStr ''580''), (''Name'', JStr ''Doha'')] = ''Doha''"
    by (simp add: display_name_def dict_get_default_def)
  have a: "resolve_tournament_id plain_builtins ''580'' doha = Some ''580''"
    using resolve_tournament_id_rules [of "''580''" doha plain_builtins]
    by (simp add: doha_def)
  have d7: "py_isdigit ''7''" "\<not> py_isdigit ''x7''"
    by (simp_all add: py_isdigit_def isdigit_char_def is_ascii_digit_def)
  have b: "resolve_tournament_id plain_builtins ''7'' doha = Some ''7''"
    using resolve_tournament_id_rules [of "''7''" doha plain_builtins] dn lw d7
    by (simp add: doha_def)
  have c: "resolve_tournament_id plain_builtins ''x7'' doha = None"
    using resolve_tournament_id_rules [of "''x7''" doha plain_builtins] dn lw d7
    by (simp add: doha_def)
  have "\<exists>pre tid t post. doha = pre @ (tid, t) # post
           \<and> resolve_tournament_id plain_builtins ''DoHa'' doha = Some tid"
    using resolve_tournament_id_rules [of "''DoHa''" doha plain_builtins] dn lw
    by (simp add: doha_def) blast
  then obtain pre tid t post where
    sp: "doha = pre @ (tid, t) # post"
    and r: "resolve_tournament_id plain_builtins ''DoHa'' doha = Some tid" by blast
  from sp have "tid = ''580''"
    by (cases pre) (simp_all add: doha_def)
  with r have d: "resolve_tournament_id plain_builtins ''DoHa'' doha = Some ''580''" by simp
  show ?thesis using a b c d by (simp add: doha_def)
qed

theorem resolve_tournament_id_counterexample:
  "[CHR 0xB2] \<notin> fst ` set doha
   \<and> py_lower (display_name plain_builtins (snd (hd doha))) \<noteq> py_lower [CHR 0xB2]
   \<and> \<not> is_ascii_digit (CHR 0xB2)
   \<and> resolve_tournament_id plain_builtins [CHR 0xB2] doha = Some [CHR 0xB2]"
  by (simp add: resolve_tournament_id_def doha_def name_matches_def display_name_def
      dict_get_default_def py_lower_def lower_char_def char_eval py_isdigit_def isdigit_char_def
      is_ascii_digit_def)

section \<open>The score assembly of the match normalizer\<close>

lemma py_eq_refl: "py_eq a a"
  by (simp add: py_eq_def split: option.splits)

lemma py_eq_sym: "py_eq a b \<Longrightarrow> py_eq b a"
  by (auto simp: py_eq_def split: option.splits)

lemma py_eq_trans: "py_eq a b \<Longrightarrow> py_eq b c \<Longrightarrow> py_eq a c"
  by (auto simp: py_eq_def split: option.splits)

lemma py_eq_int: "is_int a \<Longrightarrow> is_int b \<Longrightarrow> py_eq a b \<longleftrightarrow> int_val a = int_val b"
  by (cases a; cases b) (auto simp: py_eq_def)

lemma pairwise_ne_append:
  "pairwise_ne (a @ b) \<longleftrightarrow>
     pairwise_ne a \<and> pairwise_ne b \<and> (\<forall>x \<in> set a. \<forall>y \<in> set b. \<not> py_eq x y)"
  by (induction a) auto

lemma pairwise_ne_filter: "pairwise_ne ks \<Longrightarrow> pairwise_ne (filter P ks)"
  by (induction ks) auto

lemma pd_set_keys:
  "map fst (pd_set d k v) = (if \<exists>x \<in> set d. py_eq (fst x) k then map fst d else map fst d @ [k])"
  by (induction d) (auto split: if_splits)

lemma pd_set_pairwise:
  assumes "pairwise_ne (map fst d)"
  shows "pairwise_ne (map fst (pd_set d k v))"
proof (cases "\<exists>x \<in> set d. py_eq (fst x) k")
  case True
  with assms show ?thesis by (simp only: pd_set_keys if_True)
next
  case False
  then have "\<forall>x \<in> set (map fst d). \<not> py_eq x k" by auto
  with assms False show ?thesis
    by (simp only: pd_set_keys if_False pairwise_ne_append) simp
qed

lemma by_set_pairwise:
  "by_set sets acc = Inr d \<Longrightarrow> pairwise_ne (map fst acc) \<Longrightarrow> pairwise_ne (map fst d)"
proof (induction sets arbitrary: acc)
  case Nil
  then show ?case by simp
next
  case (Cons s sets)
  show ?case
  proof (cases s)
    case (JObj kvs)
    with Cons.prems(1) have h: "hashable (dict_get kvs ''SetNumber'')"
      and r: "by_set sets (pd_set acc (dict_get kvs ''SetNumber'') s) = Inr d"
      by (auto simp: Let_def split: if_splits)
    from Cons.IH [OF r] Cons.prems(2) show ?thesis by (simp add: pd_set_pairwise)
  qed (use Cons in auto)
qed

lemma set_union_pairwise:
  "pairwise_ne a \<Longrightarrow> pairwise_ne b \<Longrightarrow> pairwise_ne (set_union a b)"
  by (auto simp: set_union_def pairwise_ne_append pairwise_ne_filter)

lemma pairwise_ne_iff:
  "pairwise_ne ks \<longleftrightarrow> distinct ks \<and> (\<forall>x \<in> set ks. \<forall>y \<in> set ks. x \<noteq> y \<longrightarrow> \<not> py_eq x y)"
proof (induction ks)
  case Nil
  show ?case by simp
next
  case (Cons k ks)
  show ?case using Cons py_eq_refl py_eq_sym by (auto; blast)
qed

lemma pairwise_ne_int_distinct:
  assumes "pairwise_ne ks"
  shows "distinct (map int_val (filter (\<lambda>k. is_int k \<and> 1 \<le> int_val k) ks))"
proof -
  let ?F = "filter (\<lambda>k. is_int k \<and> 1 \<le> int_val k) ks"
  have d: "distinct ?F" using assms by (simp add: pairwise_ne_iff)
  have "inj_on int_val (set ?F)"
  proof (rule inj_onI)
    fix x y assume x: "x \<in> set ?F" and y: "y \<in> set ?F" and e: "int_val x = int_val y"
    then have "py_eq x y" by (simp add: py_eq_int)
    with assms x y show "x = y" by (auto simp: pairwise_ne_iff)
  qed
  with d show ?thesis by (simp add: distinct_map)
qed

lemma filter_key_single:
  assumes "distinct (map f xs)" "k \<in> set xs"
  shows "filter (\<lambda>x. f k = f x) xs = [k]"
  using assms
proof (induction xs)
  case Nil
  then show ?case by simp
next
  case (Cons a xs)
  show ?case
  proof (cases "a = k")
    case True
    have "filter (\<lambda>x. f k = f x) xs = []"
      using Cons.prems(1) True by (auto simp: filter_empty_conv)
    with True show ?thesis by simp
  next
    case False
    with Cons.prems have "k \<in> set xs" "f k \<noteq> f a" by (auto simp: image_iff)
    with Cons show ?thesis by simp
  qed
qed

lemma sort_key_perm:
  assumes "mset xs = mset ys" "distinct (map f xs)"
  shows "sort_key f xs = sort_key f ys"
proof (rule properties_for_sort_key)
  show "mset (sort_key f ys) = mset xs" using assms(1) by simp
  show "sorted (map f (sort_key f ys))" by simp
  have dy: "distinct (map f ys)"
    using assms by (metis distinct_map mset_eq_imp_distinct_iff mset_eq_setD)
  fix k assume "k \<in> set (sort_key f ys)"
  then have ky: "k \<in> set ys" by simp
  then have kx: "k \<in> set xs" using assms(1) mset_eq_setD by blast
  have ds: "distinct (map f (sort_key f ys))"
    using dy by (simp add: distinct_map)
  have "filter (\<lambda>x. f k = f x) (sort_key f ys) = [k]"
    using ds ky by (intro filter_key_single) simp_all
  moreover have "filter (\<lambda>x. f k = f x) xs = [k]"
    using assms(2) kx by (rule filter_key_single)
  ultimately show "filter (\<lambda>x. f k = f x) (sort_key f ys) = filter (\<lambda>x. f k = f x) xs"
    by simp
qed

lemma sort_key_strict:
  assumes "distinct (map f xs)"
  shows "sorted_wrt (<) (map f (sort_key f xs))"
proof -
  have "sorted (map f (sort_key f xs))" by simp
  moreover have "distinct (map f (sort_key f xs))"
    using assms by (simp add: distinct_map)
  ultimately show ?thesis by (simp add: strict_sorted_iff)
qed

lemma set_numbers_canonical:
  assumes perm: "\<And>zs. mset (iter zs) = mset zs"
    and pw: "pairwise_ne (map fst d1)" "pairwise_ne (map fst d2)"
  shows "set_numbers iter d1 d2 =
     sort_key int_val (filter (\<lambda>k. is_int k \<and> 1 \<le> int_val k)
       (set_union (map fst d1) (map fst d2)))"
proof -
  let ?P = "\<lambda>k. is_int k \<and> 1 \<le> int_val k"
  let ?U = "set_union (map fst d1) (map fst d2)"
  have "pairwise_ne ?U" using pw by (simp add: set_union_pairwise)
  then have dist: "distinct (map int_val (filter ?P ?U))"
    by (rule pairwise_ne_int_distinct)
  have "mset (filter ?P (iter ?U)) = mset (filter ?P ?U)"
    by (simp add: perm)
  then have "mset (filter ?P ?U) = mset (iter (filter ?P (iter ?U)))"
    by (simp add: perm)
  from sort_key_perm [OF this dist] show ?thesis
    by (simp add: set_numbers_def)
qed

lemma set_numbers_ascending:
  assumes perm: "\<And>zs. mset (iter zs) = mset zs"
    and pw: "pairwise_ne (map fst d1)" "pairwise_ne (map fst d2)"
  shows "sorted_wrt (<) (map int_val (set_numbers iter d1 d2))
         \<and> (\<forall>n \<in> set (set_numbers iter d1 d2). is_int n \<and> 1 \<le> int_val n)"
proof -
  define U where "U = set_union (map fst d1) (map fst d2)"
  define F where "F = filter (\<lambda>k. is_int k \<and> 1 \<le> int_val k) U"
  have c: "set_numbers iter d1 d2 = sort_key int_val F"
    unfolding F_def U_def by (rule set_numbers_canonical [OF perm pw])
  have "pairwise_ne U" unfolding U_def using pw by (simp add: set_union_pairwise)
  then have "distinct (map int_val F)"
    unfolding F_def by (rule pairwise_ne_int_distinct)
  then have s: "sorted_wrt (<) (map int_val (sort_key int_val F))"
    by (rule sort_key_strict)
  have m: "\<forall>n \<in> set (sort_key int_val F). is_int n \<and> 1 \<le> int_val n"
    by (simp add: F_def)
  show ?thesis unfolding c using s m by (rule conjI)
qed

lemma score_entry_set: "field_of (score_entry d1 d2 n) ''set'' = n"
  by (simp add: score_entry_def field_of_def dict_get_def Let_def)

lemma flatten_unfold:
  "flatten_match_data iter (JObj p) =
     (case match_score iter (p1_sets_of p) (p2_sets_of p) of
        Inl e \<Rightarrow> Inl e
      | Inr score \<Rightarrow> Inr (JObj
          [(''match_id'', py_or (dict_get (match_of p) ''MatchId'') (dict_get p ''MatchId'')),
           (''event_id'', field_of (dict_get p ''Tournament'') ''EventId''),
           (''event_year'', field_of (dict_get p ''Tournament'') ''EventYear''),
           (''event_name'', field_of (dict_get p ''Tournament'') ''EventDisplayName''),
           (''tournament_name'', field_of (dict_get p ''Tournament'') ''TournamentName''),
           (''city'', field_of (dict_get p ''Tournament'') ''TournamentCity''),
           (''surface'', py_or (py_or (field_of (dict_get p ''Tournament'') ''Court'')
                                      (dict_get (match_of p) ''Surface''))
                               (dict_get p ''Surface'')),
           (''round'', py_or (py_or (nested_get (JObj (match_of p)) ''Round.ShortName'' JNull)
                                    (dict_get (match_of p) ''RoundName''))
                             (dict_get (match_of p) ''Round'')),
           (''status'', py_or (py_or (dict_get (match_of p) ''Status'')
                                     (dict_get (match_of p) ''MatchStatus''))
                              (dict_get p ''Status'')),
           (''is_doubles'', dict_get (match_of p) ''IsDoubles''),
           (''winner_id'', py_or (py_or (dict_get (match_of p) ''WinningPlayerId'')
                                        (dict_get (match_of p) ''Winner''))
                                 (dict_get p ''Winner'')),
           (''players'', py_or (JArr (filter truthy
               [player_obj (py_or (nested_get (JObj (match_of p)) ''PlayerTeam.Player'' JNull) (JObj [])),
                player_obj (py_or (nested_get (JObj (match_of p)) ''OpponentTeam.Player'' JNull) (JObj []))]))
               JNull),
           (''score'', py_or (JArr score) JNull),
           (''duration'', py_or (dict_get (match_of p) ''MatchTimeTotal'')
                                (dict_get (match_of p) ''MatchTime''))]))"
proof -
  have t: "dict_get (case dict_get p ''Tournament'' of JObj t \<Rightarrow> t | _ \<Rightarrow> []) k
           = field_of (dict_get p ''Tournament'') k" for k
    by (cases "dict_get p ''Tournament''") (simp_all add: field_of_def dict_get_def)
  show ?thesis
    unfolding flatten_match_data_def Let_def json.case
      match_of_def [symmetric] p1_sets_of_def [symmetric] p2_sets_of_def [symmetric] t
    by (rule refl)
qed

lemma flatten_score:
  assumes "flatten_match_data iter (JObj p) = Inr r"
  shows "\<exists>score. match_score iter (p1_sets_of p) (p2_sets_of p) = Inr score
           \<and> field_of r ''score'' = py_or (JArr score) JNull"
proof (cases "match_score iter (p1_sets_of p) (p2_sets_of p)")
  case (Inl e)
  with assms show ?thesis by (simp add: flatten_unfold)
next
  case (Inr score)
  with assms have "field_of r ''score'' = py_or (JArr score) JNull"
    by (auto simp: flatten_unfold field_of_def dict_get_def)
  with Inr show ?thesis by blast
qed

lemma match_score_indep:
  assumes "\<And>zs. mset (iter1 zs) = mset zs" "\<And>zs. mset (iter2 zs) = mset zs"
  shows "match_score iter1 a b = match_score iter2 a b"
proof (cases "is_list a \<and> is_list b")
  case True
  then obtain xs ys where ab: "a = JArr xs" "b = JArr ys"
    by (cases a; cases b) auto
  show ?thesis
  proof (cases "by_set xs []")
    case (Inl e)
    then show ?thesis by (simp add: ab match_score_def)
  next
    case d1: (Inr d1)
    show ?thesis
    proof (cases "by_set ys []")
      case (Inl e)
      with d1 show ?thesis by (simp add: ab match_score_def)
    next
      case d2: (Inr d2)
      have pw: "pairwise_ne (map fst d1)" "pairwise_ne (map fst d2)"
        using by_set_pairwise [OF d1] by_set_pairwise [OF d2] by simp_all
      have "set_numbers iter1 d1 d2 = set_numbers iter2 d1 d2"
        by (simp only: set_numbers_canonical [OF assms(1) pw]
            set_numbers_canonical [OF assms(2) pw])
      with d1 d2 show ?thesis by (simp add: ab match_score_def)
    qed
  qed
next
  case False
  then show ?thesis
    by (cases a; cases b) (auto simp: match_score_def)
qed

lemma match_score_numbers:
  assumes perm: "\<And>zs. mset (iter zs) = mset zs"
    and ms: "match_score iter a b = Inr score"
  shows "sorted_wrt (<) (map int_val (map (\<lambda>e. field_of e ''set'') score))
         \<and> (\<forall>n \<in> set (map (\<lambda>e. field_of e ''set'') score). is_int n \<and> 1 \<le> int_val n)"
proof (cases "is_list a \<and> is_list b")
  case True
  then obtain xs ys where ab: "a = JArr xs" "b = JArr ys"
    by (cases a; cases b) auto
  show ?thesis
  proof (cases "xs = [] \<and> ys = []")
    case True
    with ms ab have "score = []" by (simp add: match_score_def)
    then show ?thesis by simp
  next
    case ne: False
    from ms ab ne obtain d1 d2 where
      d: "by_set xs [] = Inr d1" "by_set ys [] = Inr d2"
         "score = map (score_entry d1 d2) (set_numbers iter d1 d2)"
      by (auto simp: match_score_def split: sum.splits)
    have pw: "pairwise_ne (map fst d1)" "pairwise_ne (map fst d2)"
      using by_set_pairwise [OF d(1)] by_set_pairwise [OF d(2)] by simp_all
    have "map (\<lambda>e. field_of e ''set'') score = set_numbers iter d1 d2"
      by (simp add: d(3) comp_def score_entry_set)
    with set_numbers_ascending [OF perm pw] show ?thesis by simp
  qed
next
  case False
  with ms have "score = []"
    by (cases a; cases b) (auto simp: match_score_def)
  then show ?thesis by simp
qed

lemma flatten_numbers:
  assumes perm: "\<And>zs. mset (iter zs) = mset zs"
    and fl: "flatten_match_data iter payload = Inr r"
  shows "sorted_wrt (<) (map int_val (score_numbers r))
         \<and> (\<forall>n \<in> set (score_numbers r). is_int n \<and> 1 \<le> int_val n)"
proof (cases payload)
  case (JObj p)
  with fl flatten_score obtain score where
    s: "match_score iter (p1_sets_of p) (p2_sets_of p) = Inr score"
       "field_of r ''score'' = py_or (JArr score) JNull" by blast
  show ?thesis
  proof (cases "score = []")
    case True
    with s(2) show ?thesis by (simp add: score_numbers_def py_or_def)
  next
    case False
    with s(2) have "score_numbers r = map (\<lambda>e. field_of e ''set'') score"
      by (simp add: score_numbers_def py_or_def)
    with match_score_numbers [OF perm s(1)] show ?thesis by simp
  qed
qed (use fl in \<open>auto simp: flatten_match_data_def score_numbers_def field_of_def dict_get_def\<close>)

lemma example_flatten:
  "flatten_match_data rev example_payload = Inr example_record"
  by code_simp

lemma list_key_raises: "flatten_match_data iter payload_list_key = Inl TypeError"
  by (simp add: payload_list_key_def flatten_unfold p1_sets_of_def p2_sets_of_def match_of_def
      nested_get_def dict_get_def match_score_def hashable_def)

lemma float_key_score:
  "flatten_match_data rev payload_float_key = Inr record_float_key"
  "flatten_match_data id payload_float_key = Inr record_float_key"
  by code_simp+

text \<open>
  Claim C3 (the code departs from it).  The normalizer keys each side by
  \<^verbatim>\<open>s.get("SetNumber")\<close> before it filters the keys to the integers from 1 on.  A set
  number that is a list cannot be a key: for \<open>payload_list_key\<close>, which the containment
  predicate lets through, the normalizer raises \<^verbatim>\<open>TypeError\<close> instead of leaving the
  entry out, whatever the iteration order.  Keys are united under Python's \<^verbatim>\<open>==\<close>, which
  keeps the first of two equal keys: for \<open>payload_float_key\<close> the union holds \<^verbatim>\<open>1.0\<close>
  alone, the filter removes it, and the record has no score at all though side two gives
  set 1 with an integer number.
\<close>

theorem normalizer_score_departs:
  "has_match_id payload_list_key
   \<and> flatten_match_data iter payload_list_key = Inl TypeError
   \<and> has_match_id payload_float_key
   \<and> flatten_match_data rev payload_float_key = Inr record_float_key
   \<and> flatten_match_data id payload_float_key = Inr record_float_key
   \<and> field_of record_float_key ''score'' = JNull
   \<and> score_numbers record_float_key = []"
proof -
  have a: "has_match_id payload_list_key" "has_match_id payload_float_key"
    by (simp_all add: has_match_id_def payload_list_key_def payload_float_key_def dict_get_def)
  have b: "field_of record_float_key ''score'' = JNull" "score_numbers record_float_key = []"
    by (simp_all add: score_numbers_def record_float_key_def field_of_def dict_get_def)
  show ?thesis using a b list_key_raises float_key_score by simp
qed

lemma section_value:
  "py_or (dict_get_default raw k (JArr [])) (JArr []) = py_or (dict_get raw k) (JArr [])"
  by (cases "map_of raw k") (simp_all add: dict_get_default_def dict_get_def py_or_def)

lemma h2h_sections:
  "flatten_h2h_matches (JObj raw) =
     (case py_iter (py_or (dict_get raw ''Tournaments'') (JArr [])) of
        Inl e \<Rightarrow> Inl e
      | Inr ts \<Rightarrow>
          (case h2h_tournaments_loop ts [] of
             Inl e \<Rightarrow> Inl e
           | Inr matches \<Rightarrow>
               (case py_iter (py_or (dict_get raw ''OtherTournaments'') (JArr [])) of
                  Inl e \<Rightarrow> Inl e
                | Inr ts' \<Rightarrow> h2h_tournaments_loop ts' matches)))"
  by (simp add: flatten_h2h_matches_def h2h_section_def section_value split: sum.splits)

lemma h2h_same_sections:
  assumes "dict_get raw ''Tournaments'' = dict_get raw' ''Tournaments''"
    and "dict_get raw ''OtherTournaments'' = dict_get raw' ''OtherTournaments''"
  shows "flatten_h2h_matches (JObj raw) = flatten_h2h_matches (JObj raw')"
  by (simp only: h2h_sections assms)

lemma match_normal_form:
  assumes "\<And>zs. mset (iter1 zs) = mset zs" and "\<And>zs. mset (iter2 zs) = mset zs"
  shows "flatten_match_data iter1 payload = flatten_match_data iter2 payload"
proof (cases payload)
  case (JObj p)
  show ?thesis
    unfolding JObj flatten_unfold
    by (simp only: match_score_indep [of iter1 iter2, OF assms])
qed (simp_all add: flatten_match_data_def)

text \<open>
  Claim C8.  The normalized record is a function of the payload alone: the one thing in
  \<open>flatten_match_data\<close> that is not fixed by the payload, the order in which the two
  sets of set numbers are iterated, has no effect on the result (a record or the
  exception raised), so two runs on the same payload give the same output.  The
  head-to-head normalizer iterates no set; its result is fixed by the two sections of the
  payload that it walks, whatever else the payload holds.
\<close>

theorem normalization_deterministic:
  assumes "\<And>zs. mset (iter1 zs) = mset zs" and "\<And>zs. mset (iter2 zs) = mset zs"
  shows "flatten_match_data iter1 payload = flatten_match_data iter2 payload
     \<and> (dict_get raw ''Tournaments'' = dict_get raw' ''Tournaments''
          \<and> dict_get raw ''OtherTournaments'' = dict_get raw' ''OtherTournaments'' \<longrightarrow>
          flatten_h2h_matches (JObj raw) = flatten_h2h_matches (JObj raw'))"
  using match_normal_form [OF assms] h2h_same_sections by blast

theorem normalization_deterministic_witness:
  "(\<forall>zs :: json list. mset (rev zs) = mset zs)
   \<and> (\<forall>zs :: json list. mset (id zs) = mset zs)
   \<and> flatten_match_data id example_payload = Inr example_record
   \<and> dict_get (tl example_h2h) ''Tournaments'' = dict_get example_h2h ''Tournaments''
   \<and> dict_get (tl example_h2h) ''OtherTournaments'' = dict_get example_h2h ''OtherTournaments''
   \<and> flatten_h2h_matches (JObj (tl example_h2h)) = flatten_h2h_matches (JObj example_h2h)"
proof -
  have p1: "mset (rev zs) = mset zs" for zs :: "json list" by simp
  have p2: "mset (id zs) = mset zs" for zs :: "json list" by simp
  have s1: "dict_get (tl example_h2h) ''Tournaments'' = dict_get example_h2h ''Tournaments''"
    by (simp add: example_h2h_def dict_get_def)
  have s2: "dict_get (tl example_h2h) ''OtherTournaments'' = dict_get example_h2h ''OtherTournaments''"
    by (simp add: example_h2h_def dict_get_def)
  note t = normalization_deterministic [of id rev example_payload "tl example_h2h" example_h2h,
      OF p2 p1]
  from t have "flatten_match_data id example_payload = flatten_match_data rev example_payload"
    by (rule conjunct1)
  with example_flatten have a: "flatten_match_data id example_payload = Inr example_record"
    by simp
  from t s1 s2 have b: "flatten_h2h_matches (JObj (tl example_h2h))
      = flatten_h2h_matches (JObj example_h2h)"
    by blast
  show ?thesis using p1 p2 a s1 s2 b by blast
qed

section \<open>Fetching, the endpoints and the head-to-head fetch\<close>

lemma match_url_inj: "match_url y t m = match_url y t m' \<longleftrightarrow> m = m'"
  by (simp add: match_url_def)

lemma candidates_32:
  "generate_match_ids (JInt 32) @ generate_qualifier_ids (JInt MAX_QUALIFIERS)
   = [''ms001'', ''ms002'', ''ms003'', ''ms004'', ''ms005'', ''ms006'', ''ms007'', ''ms008'',
      ''ms009'', ''ms010'', ''ms011'', ''ms012'', ''ms013'', ''ms014'', ''ms015'', ''ms016'',
      ''ms017'', ''ms018'', ''ms019'', ''ms020'', ''ms021'', ''ms022'', ''ms023'', ''ms024'',
      ''ms025'', ''ms026'', ''ms027'', ''ms028'', ''ms029'', ''ms030'', ''ms031'',
      ''qs001'', ''qs002'', ''qs003'', ''qs004'', ''qs005'', ''qs006'', ''qs007'', ''qs008'',
      ''qs009'', ''qs010'', ''qs011'', ''qs012'', ''qs013'', ''qs014'', ''qs015'', ''qs016'',
      ''qs017'', ''qs018'', ''qs019'', ''qs020'']"
  by code_simp

lemma fetch_two:
  "fetch_match upstream_two 2024 ''580'' mid =
     (if mid = ''ms001'' \<or> mid = ''ms002'' then Inr (payload_of mid) else Inr JNull)"
  by (simp add: fetch_match_def upstream_two_def match_url_inj)

lemma fetch_timeout:
  "fetch_match upstream_timeout 2024 ''580'' mid =
     (if mid = ''ms001'' then Inr (payload_of mid)
      else if mid = ''ms002'' then Inl RequestError else Inr JNull)"
  by (simp add: fetch_match_def upstream_timeout_def match_url_inj)

lemma payload_has_id: "has_match_id (payload_of mid) \<longleftrightarrow> mid \<noteq> []"
  by (simp add: has_match_id_def payload_of_def dict_get_def)

lemma doha_580:
  "resolve_tournament_id py ''580'' doha = Some ''580''"
  "candidate_ids py doha ''580''
     = Inr (generate_match_ids (JInt 32) @ generate_qualifier_ids (JInt MAX_QUALIFIERS))"
  "registry_name doha ''580'' = JStr ''Doha''"
  by (simp_all add: resolve_tournament_id_def candidate_ids_def doha_def dict_get_default_def
      registry_name_def dict_get_def)

lemma payload_truthy: "truthy (payload_of mid)"
  by (simp add: payload_of_def)

lemma timeout_run:
  "get_tournament_matches world_timeout 2024 ''580'' False = Inl RequestError"
  by (simp add: get_tournament_matches_def world_timeout_def doha_580 candidates_32
      fetch_timeout payload_has_id payload_truthy)

lemma two_run:
  "get_tournament_matches world_two 2024 ''580'' False
       = Inr (JObj [(''tournament'', JStr ''Doha''), (''tournament_id'', JStr ''580''),
                    (''year'', JInt 2024),
                    (''matches'', JObj [(''ms001'', payload_of ''ms001''),
                                        (''ms002'', payload_of ''ms002'')])])"
  by (simp add: get_tournament_matches_def world_two_def doha_580 candidates_32
      fetch_two payload_has_id payload_truthy)

text \<open>
  Claim C1 (the code departs from it).  In \<open>world_timeout\<close> the request for the second
  candidate, ms002, times out.  The exception leaves \<open>fetch_match\<close> and the endpoint: the
  request ends with status 500 and no mapping, though ms001 was found.  In \<open>world_two\<close>,
  where the same candidate answers, the response holds ms001 and ms002.
\<close>

theorem fetch_failure_aborts_request:
  "get_tournament_matches world_timeout 2024 ''580'' False = Inl RequestError
   \<and> http_status (get_tournament_matches world_timeout 2024 ''580'' False) = 500
   \<and> get_tournament_matches world_two 2024 ''580'' False
       = Inr (JObj [(''tournament'', JStr ''Doha''), (''tournament_id'', JStr ''580''),
                    (''year'', JInt 2024),
                    (''matches'', JObj [(''ms001'', payload_of ''ms001''),
                                        (''ms002'', payload_of ''ms002'')])])"
  using timeout_run two_run by simp

lemma str_int_value: "0 \<le> n \<Longrightarrow> dec_value (str_int n) = nat n"
  by (simp add: str_int_def digits10_value)

lemma player_code_shape:
  "player_code_match p \<longleftrightarrow>
     (\<exists>body. body \<noteq> [] \<and> (\<forall>c \<in> set body. is_alnum c) \<and> (p = body \<or> p = body @ [CHR 0x0A]))"
proof
  assume m: "player_code_match p"
  show "\<exists>body. body \<noteq> [] \<and> (\<forall>c \<in> set body. is_alnum c) \<and> (p = body \<or> p = body @ [CHR 0x0A])"
  proof (cases "p \<noteq> [] \<and> last p = CHR 0x0A")
    case True
    then have "p = butlast p @ [CHR 0x0A]" using append_butlast_last_id [of p] by simp
    moreover from m True have "butlast p \<noteq> [] \<and> (\<forall>c \<in> set (butlast p). is_alnum c)"
      by (simp add: player_code_match_def Let_def)
    ultimately show ?thesis by blast
  next
    case False
    with m have "p \<noteq> [] \<and> (\<forall>c \<in> set p. is_alnum c)"
      by (auto simp: player_code_match_def)
    then show ?thesis by blast
  qed
next
  assume "\<exists>body. body \<noteq> [] \<and> (\<forall>c \<in> set body. is_alnum c) \<and> (p = body \<or> p = body @ [CHR 0x0A])"
  then obtain body where b: "body \<noteq> []" "\<forall>c \<in> set body. is_alnum c"
    "p = body \<or> p = body @ [CHR 0x0A]" by blast
  have nl: "\<not> is_alnum (CHR 0x0A)" by (simp add: is_alnum_def)
  from b(3) show "player_code_match p"
  proof
    assume "p = body"
    moreover from b nl have "last body \<noteq> CHR 0x0A" using last_in_set by metis
    ultimately show ?thesis using b by (simp add: player_code_match_def)
  next
    assume "p = body @ [CHR 0x0A]"
    then show ?thesis using b by (simp add: player_code_match_def)
  qed
qed

text \<open>
  What the fetch does for two codes that match the pattern and give a URL that httpx
  accepts: one request, and each outcome of it mapped to its own result.
\<close>

lemma fetch_head_to_head_outcomes:
  assumes ok: "player_code_match p1" "player_code_match p2"
    and valid: "\<not> (\<exists>c \<in> set (BASE_H2H_URL @ ''/'' @ p1 @ ''/'' @ p2). non_printable_ascii c)"
  shows "snd (fetch_head_to_head up p1 p2)"
    and "up (BASE_H2H_URL @ ''/'' @ p1 @ ''/'' @ p2) = NetworkFailure \<Longrightarrow>
           fst (fetch_head_to_head up p1 p2) = Inl (HTTPException 502 ''Upstream ATP request failed'')"
    and "up (BASE_H2H_URL @ ''/'' @ p1 @ ''/'' @ p2) = Response 404 body \<Longrightarrow>
           fst (fetch_head_to_head up p1 p2) = Inl (HTTPException 404 ''Head-to-head not found'')"
    and "up (BASE_H2H_URL @ ''/'' @ p1 @ ''/'' @ p2) = Response st body \<Longrightarrow> st \<noteq> 404 \<Longrightarrow> st \<noteq> 200 \<Longrightarrow>
           fst (fetch_head_to_head up p1 p2)
             = Inl (HTTPException 502 (''Upstream ATP error (status '' @ str_int st @ '')''))"
    and "up (BASE_H2H_URL @ ''/'' @ p1 @ ''/'' @ p2) = Response 200 None \<Longrightarrow>
           fst (fetch_head_to_head up p1 p2)
             = Inl (HTTPException 502 ''Upstream ATP returned invalid JSON'')"
    and "up (BASE_H2H_URL @ ''/'' @ p1 @ ''/'' @ p2) = Response 200 (Some v) \<Longrightarrow>
           fst (fetch_head_to_head up p1 p2) = Inr v"
  using ok valid by (simp_all add: fetch_head_to_head_def Let_def)

lemma fetch_head_to_head_rejects:
  assumes "\<not> player_code_match p1 \<or> \<not> player_code_match p2"
  shows "fetch_head_to_head up p1 p2
         = (Inl (HTTPException 400 ''Player IDs must be alphanumeric ATP player codes (e.g., DH58)''),
            False)"
  using assms by (auto simp: fetch_head_to_head_def)

text \<open>
  Claim C7 (the code departs from it).  The code \<open>DH58\<close> followed by a newline is not
  alphanumeric, yet the pattern matches it, because \<^verbatim>\<open>$\<close> also matches before a final
  newline.  No 400 is raised: the URL is built with the newline in it, httpx refuses it
  with \<^verbatim>\<open>InvalidURL\<close> before any request is sent, and the exception leaves the fetch (a
  server error for the caller).  A code with a hyphen is refused with the 400 error, as
  the claim says.
\<close>

theorem player_code_newline_accepted:
  "\<not> is_alnum (CHR 0x0A)
   \<and> player_code_match (''DH58'' @ [CHR 0x0A])
   \<and> fetch_head_to_head up (''DH58'' @ [CHR 0x0A]) ''AB12'' = (Inl InvalidURL, False)
   \<and> http_status (fst (fetch_head_to_head up (''DH58'' @ [CHR 0x0A]) ''AB12'')) = 500
   \<and> fetch_head_to_head up ''DH-58'' ''AB12''
       = (Inl (HTTPException 400 ''Player IDs must be alphanumeric ATP player codes (e.g., DH58)''),
          False)"
proof -
  have a: "\<not> is_alnum (CHR 0x0A)" by (simp add: is_alnum_def)
  have m: "player_code_match (''DH58'' @ [CHR 0x0A])" "player_code_match ''AB12''"
    by (simp_all add: player_code_match_def is_alnum_def)
  have n: "\<not> player_code_match ''DH-58''"
    by (simp add: player_code_match_def is_alnum_def)
  have c: "non_printable_ascii (CHR 0x0A)" by (simp add: non_printable_ascii_def)
  have b: "fetch_head_to_head up (''DH58'' @ [CHR 0x0A]) ''AB12'' = (Inl InvalidURL, False)"
    using m c by (auto simp: fetch_head_to_head_def Let_def)
  have d: "fetch_head_to_head up ''DH-58'' ''AB12''
       = (Inl (HTTPException 400 ''Player IDs must be alphanumeric ATP player codes (e.g., DH58)''),
          False)"
    using n by (rule fetch_head_to_head_rejects [OF disjI1])
  show ?thesis using a m(1) b d by simp
qed

theorem player_code_newline_accepted_witness:
  "player_code_match (''DH58'' @ [CHR 0x0A])
   \<and> fetch_head_to_head upstream_two (''DH58'' @ [CHR 0x0A]) ''AB12'' = (Inl InvalidURL, False)
   \<and> fetch_head_to_head upstream_two ''DH-58'' ''AB12''
       = (Inl (HTTPException 400 ''Player IDs must be alphanumeric ATP player codes (e.g., DH58)''),
          False)"
  using player_code_newline_accepted [of upstream_two] by blast

lemma dict_set_entries: "(k', v') \<in> set (dict_set d k v) \<Longrightarrow> (k', v') \<in> set d \<or> (k', v') = (k, v)"
  by (induction d) (auto split: if_splits)

lemma fetch_all_entries:
  assumes "fetch_all w year tid fl mids acc = Inr md" "(k, v) \<in> set md"
  shows "(k, v) \<in> set acc
         \<or> (k \<in> set mids
             \<and> (\<exists>data. fetch_match (client w) year tid k = Inr data \<and> truthy data
                   \<and> has_match_id data
                   \<and> (if fl then flatten_match_data (set_iter w) data = Inr v else v = data)))"
  using assms
proof (induction mids arbitrary: acc)
  case Nil
  then show ?case by simp
next
  case (Cons mid mids)
  show ?case
  proof (cases "fetch_match (client w) year tid mid")
    case (Inl e)
    with Cons.prems show ?thesis by simp
  next
    case (Inr data)
    show ?thesis
    proof (cases "truthy data \<and> has_match_id data")
      case False
      with Inr Cons.prems(1) have "fetch_all w year tid fl mids acc = Inr md"
        by (cases "truthy data") simp_all
      from Cons.IH [OF this Cons.prems(2)] show ?thesis by auto
    next
      case True
      show ?thesis
      proof (cases fl)
        case fl: True
        with True Inr Cons.prems(1) obtain v' where
          v': "flatten_match_data (set_iter w) data = Inr v'"
          "fetch_all w year tid fl mids (dict_set acc mid v') = Inr md"
          by (auto split: sum.splits)
        from Cons.IH [OF v'(2) Cons.prems(2)] show ?thesis
          using dict_set_entries [of k v acc mid v'] True Inr v'(1) fl by auto
      next
        case fl: False
        with True Inr Cons.prems(1) have
          r: "fetch_all w year tid fl mids (dict_set acc mid data) = Inr md" by auto
        from Cons.IH [OF r Cons.prems(2)] show ?thesis
          using dict_set_entries [of k v acc mid data] True Inr fl by auto
      qed
    qed
  qed
qed


lemma get_tournament_matches_inv:
  assumes "get_tournament_matches w year tournament_id fl = Inr resp"
  shows "\<exists>reg tid ids md. registry_load w = Inr reg
           \<and> resolve_tournament_id (builtins_of w) tournament_id reg = Some tid \<and> tid \<noteq> []
           \<and> candidate_ids (builtins_of w) reg tid = Inr ids
           \<and> fetch_all w year tid fl ids [] = Inr md
           \<and> resp = JObj [(''tournament'', registry_name reg tid), (''tournament_id'', JStr tid),
                           (''year'', JInt year), (''matches'', JObj md)]"
  using assms
  by (auto simp: get_tournament_matches_def split: sum.splits option.splits if_splits)

lemma response_fields:
  "field_of (JObj [(''tournament'', a), (''tournament_id'', b), (''year'', c), (''matches'', JObj md)])
     ''tournament_id'' = b"
  "field_of (JObj [(''tournament'', a), (''tournament_id'', b), (''year'', c), (''matches'', JObj md)])
     ''tournament'' = a"
  "matches_of (JObj [(''tournament'', a), (''tournament_id'', b), (''year'', c), (''matches'', JObj md)])
     = md"
  by (simp_all add: field_of_def matches_of_def dict_get_def)

lemma matches_entries:
  assumes "get_tournament_matches w year tournament_id fl = Inr resp"
    and "(mid, v) \<in> set (matches_of resp)"
  shows "\<exists>tid data. field_of resp ''tournament_id'' = JStr tid
           \<and> fetch_match (client w) year tid mid = Inr data \<and> truthy data \<and> has_match_id data
           \<and> (if fl then flatten_match_data (set_iter w) data = Inr v else v = data)"
proof -
  from get_tournament_matches_inv [OF assms(1)] obtain reg tid ids md where
    f: "fetch_all w year tid fl ids [] = Inr md"
    and r: "resp = JObj [(''tournament'', registry_name reg tid), (''tournament_id'', JStr tid),
                         (''year'', JInt year), (''matches'', JObj md)]"
    by blast
  from assms(2) r have "(mid, v) \<in> set md" by (simp add: response_fields)
  from fetch_all_entries [OF f this] r show ?thesis by (auto simp: response_fields)
qed

lemma has_match_id_iff:
  "has_match_id payload \<longleftrightarrow>
     (\<exists>p. payload = JObj p
        \<and> ((\<exists>m. dict_get p ''Match'' = JObj m \<and> truthy (dict_get m ''MatchId''))
            \<or> truthy (dict_get p ''MatchId'')))"
  by (cases payload) (auto simp: has_match_id_def split: json.splits)

lemma fetch_all_skip:
  assumes "fetch_match (client w) year tid mid = Inr data" "\<not> has_match_id data"
  shows "fetch_all w year tid fl (mid # mids) acc = fetch_all w year tid fl mids acc"
  using assms by simp

text \<open>
  Claim C4.  The containment predicate holds of a payload exactly when the payload is a
  dict and a match identifier is present in the wrapped place (a \<open>Match\<close> object with a
  \<open>MatchId\<close>) or in the legacy place (a top-level \<open>MatchId\<close>), an identifier being
  present when the field holds a value that Python takes as true.  It holds of
  \<open>{"Match": {"MatchId": "ms001"}}\<close> and fails of a payload with only a \<open>Tournament\<close>
  object.  Every entry of the \<open>matches\<close> mapping of the aggregate response comes from a
  fetched payload of which the predicate holds; a payload of which it fails is passed
  over, with or without flattening, before the normalizer is reached.
\<close>

theorem has_match_id_spec:
  "(has_match_id payload \<longleftrightarrow>
      (\<exists>p. payload = JObj p
         \<and> ((\<exists>m. dict_get p ''Match'' = JObj m \<and> truthy (dict_get m ''MatchId''))
             \<or> truthy (dict_get p ''MatchId''))))
   \<and> has_match_id (JObj [(''Match'', JObj [(''MatchId'', JStr ''ms001'')])])
   \<and> \<not> has_match_id (JObj [(''Tournament'', JObj t)])
   \<and> (get_tournament_matches w year tournament_id fl = Inr resp
        \<and> (mid, v) \<in> set (matches_of resp) \<longrightarrow>
        (\<exists>tid data. field_of resp ''tournament_id'' = JStr tid
           \<and> fetch_match (client w) year tid mid = Inr data \<and> has_match_id data
           \<and> (if fl then flatten_match_data (set_iter w) data = Inr v else v = data)))
   \<and> (fetch_match (client w) year tid' mid' = Inr data' \<and> \<not> has_match_id data' \<longrightarrow>
        fetch_all w year tid' fl (mid' # mids) acc = fetch_all w year tid' fl mids acc)"
proof (intro conjI impI)
  show "has_match_id payload \<longleftrightarrow>
      (\<exists>p. payload = JObj p
         \<and> ((\<exists>m. dict_get p ''Match'' = JObj m \<and> truthy (dict_get m ''MatchId''))
             \<or> truthy (dict_get p ''MatchId'')))"
    by (rule has_match_id_iff)
  show "has_match_id (JObj [(''Match'', JObj [(''MatchId'', JStr ''ms001'')])])"
    by (simp add: has_match_id_def dict_get_def)
  show "\<not> has_match_id (JObj [(''Tournament'', JObj t)])"
    by (simp add: has_match_id_def dict_get_def)
  show "\<exists>tid data. field_of resp ''tournament_id'' = JStr tid
           \<and> fetch_match (client w) year tid mid = Inr data \<and> has_match_id data
           \<and> (if fl then flatten_match_data (set_iter w) data = Inr v else v = data)"
    if "get_tournament_matches w year tournament_id fl = Inr resp
        \<and> (mid, v) \<in> set (matches_of resp)"
    using that matches_entries [of w year tournament_id fl resp mid v] by blast
  show "fetch_all w year tid' fl (mid' # mids) acc = fetch_all w year tid' fl mids acc"
    if "fetch_match (client w) year tid' mid' = Inr data' \<and> \<not> has_match_id data'"
    using that fetch_all_skip by blast
qed

theorem has_match_id_spec_witness:
  "get_tournament_matches world_two 2024 ''580'' False
     = Inr (JObj [(''tournament'', JStr ''Doha''), (''tournament_id'', JStr ''580''),
                  (''year'', JInt 2024),
                  (''matches'', JObj [(''ms001'', payload_of ''ms001''),
                                      (''ms002'', payload_of ''ms002'')])])
   \<and> fetch_match (client world_two) 2024 ''580'' ''ms001'' = Inr (payload_of ''ms001'')
   \<and> has_match_id (payload_of ''ms001'')
   \<and> fetch_match (client world_two) 2024 ''580'' ''ms003'' = Inr JNull
   \<and> \<not> has_match_id JNull
   \<and> fetch_all world_two 2024 ''580'' True [''ms003''] [] = Inr []"
proof -
  let ?resp = "JObj [(''tournament'', JStr ''Doha''), (''tournament_id'', JStr ''580''),
                  (''year'', JInt 2024),
                  (''matches'', JObj [(''ms001'', payload_of ''ms001''),
                                      (''ms002'', payload_of ''ms002'')])]"
  have m: "(''ms001'', payload_of ''ms001'') \<in> set (matches_of ?resp)"
    by (simp add: response_fields)
  have c: "client world_two = upstream_two" by (simp add: world_two_def)
  note t4 = has_match_id_spec [where w = world_two and year = 2024 and tournament_id = "''580''"
      and fl = False and resp = ?resp and mid = "''ms001''" and v = "payload_of ''ms001''",
      THEN conjunct2, THEN conjunct2, THEN conjunct2, THEN conjunct1]
  from t4 two_run m have "\<exists>tid data. field_of ?resp ''tournament_id'' = JStr tid
           \<and> fetch_match (client world_two) 2024 tid ''ms001'' = Inr data \<and> has_match_id data
           \<and> payload_of ''ms001'' = data"
    by (simp only: if_False)
  then obtain tid data where
    d: "field_of ?resp ''tournament_id'' = JStr tid"
       "fetch_match (client world_two) 2024 tid ''ms001'' = Inr data" "has_match_id data"
       "payload_of ''ms001'' = data"
    by blast
  from d(1) have tid: "tid = ''580''" by (simp add: response_fields)
  have f3: "fetch_match (client world_two) 2024 ''580'' ''ms003'' = Inr JNull"
    by (simp add: c fetch_two)
  have n: "\<not> has_match_id JNull"
    using has_match_id_spec [where payload = JNull, THEN conjunct1] by simp
  have "fetch_all world_two 2024 ''580'' True (''ms003'' # []) []
        = fetch_all world_two 2024 ''580'' True [] []"
    using has_match_id_spec [where w = world_two and year = 2024 and fl = True
        and tid' = "''580''" and mid' = "''ms003''" and data' = JNull
        and mids = "[]" and acc = "[]", THEN conjunct2, THEN conjunct2, THEN conjunct2,
        THEN conjunct2]
      f3 n by blast
  then have s: "fetch_all world_two 2024 ''580'' True [''ms003''] [] = Inr []" by simp
  show ?thesis using two_run d tid f3 n s by simp
qed




lemma empty_ids_no_match:
  assumes "field_of (dict_get p ''Match'') ''MatchId'' \<in> {JStr [], JNull}"
    and "dict_get p ''MatchId'' \<in> {JStr [], JNull}"
  shows "\<not> has_match_id (JObj p)"
  using assms
  by (cases "dict_get p ''Match''") (auto simp: has_match_id_def field_of_def)

lemma falsy_values:
  "\<not> truthy body \<longleftrightarrow>
     body \<in> {JNull, JBool False, JInt 0, JFloat (FRat 0), JStr [], JArr [], JObj []}"
  by (cases body) auto

lemma fetch_200: 
  "client w (match_url year tid mid) = Response 200 (Some body) \<Longrightarrow>
   fetch_match (client w) year tid mid = Inr body"
  by (simp add: fetch_match_def)

text \<open>
  Claim C10.  A response of status 200 whose parsed body is empty or null (any value
  that Python takes as false), or whose match identifier is the empty string wherever it
  is given, counts as no match: the aggregate response leaves the candidate out of its
  mapping, and for an empty or null body the single-match endpoint ends with the 404
  "Match not found".
\<close>

theorem empty_body_not_found:
  "(get_tournament_matches w year tournament_id fl = Inr resp
     \<and> field_of resp ''tournament_id'' = JStr tid
     \<and> client w (match_url year tid mid) = Response 200 (Some body)
     \<and> (\<not> truthy body
         \<or> (\<exists>p. body = JObj p
               \<and> field_of (dict_get p ''Match'') ''MatchId'' \<in> {JStr [], JNull}
               \<and> dict_get p ''MatchId'' \<in> {JStr [], JNull})) \<longrightarrow>
     mid \<notin> fst ` set (matches_of resp))
   \<and> (registry_load w = Inr reg
       \<and> resolve_tournament_id (builtins_of w) tournament_id reg = Some tid'
       \<and> client w (match_url year tid' match_id) = Response 200 (Some body')
       \<and> \<not> truthy body' \<longrightarrow>
       http_status (get_single_match w year tournament_id match_id fl) = 404
       \<and> (tid' \<noteq> [] \<longrightarrow>
            get_single_match w year tournament_id match_id fl
              = Inl (HTTPException 404 ''Match not found'')))
   \<and> (\<not> truthy body \<longleftrightarrow>
        body \<in> {JNull, JBool False, JInt 0, JFloat (FRat 0), JStr [], JArr [], JObj []})"
proof (intro conjI impI)
  show "mid \<notin> fst ` set (matches_of resp)"
    if h: "get_tournament_matches w year tournament_id fl = Inr resp
     \<and> field_of resp ''tournament_id'' = JStr tid
     \<and> client w (match_url year tid mid) = Response 200 (Some body)
     \<and> (\<not> truthy body
         \<or> (\<exists>p. body = JObj p
               \<and> field_of (dict_get p ''Match'') ''MatchId'' \<in> {JStr [], JNull}
               \<and> dict_get p ''MatchId'' \<in> {JStr [], JNull}))"
  proof
    assume "mid \<in> fst ` set (matches_of resp)"
    then obtain v where "(mid, v) \<in> set (matches_of resp)" by auto
    with h matches_entries [of w year tournament_id fl resp mid v] obtain tid2 data where
      d: "field_of resp ''tournament_id'' = JStr tid2"
         "fetch_match (client w) year tid2 mid = Inr data" "truthy data" "has_match_id data"
      by blast
    from d(1) h have "tid2 = tid" by simp
    with d(2) h have "data = body" by (simp add: fetch_200)
    with d(3,4) h show False using empty_ids_no_match by blast
  qed
next
  assume h: "registry_load w = Inr reg
       \<and> resolve_tournament_id (builtins_of w) tournament_id reg = Some tid'
       \<and> client w (match_url year tid' match_id) = Response 200 (Some body')
       \<and> \<not> truthy body'"
  then have f: "fetch_match (client w) year tid' match_id = Inr body'" by (simp add: fetch_200)
  show "http_status (get_single_match w year tournament_id match_id fl) = 404"
    using h f by (simp add: get_single_match_def)
  show "get_single_match w year tournament_id match_id fl
              = Inl (HTTPException 404 ''Match not found'')" if "tid' \<noteq> []"
    using h f that by (simp add: get_single_match_def)
next
  show "\<not> truthy body \<longleftrightarrow>
        body \<in> {JNull, JBool False, JInt 0, JFloat (FRat 0), JStr [], JArr [], JObj []}"
    by (rule falsy_values)
qed

lemma fetch_empty:
  "fetch_match upstream_empty 2024 ''580'' mid =
     (if mid = ''ms001'' then Inr (JObj [(''MatchId'', JStr '''')])
      else if mid = ''ms002'' then Inr JNull else Inr (JObj []))"
  by (simp add: fetch_match_def upstream_empty_def match_url_inj)

lemma empty_run:
  "get_tournament_matches world_empty 2024 ''580'' False
     = Inr (JObj [(''tournament'', JStr ''Doha''), (''tournament_id'', JStr ''580''),
                  (''year'', JInt 2024), (''matches'', JObj [])])"
  by (simp add: get_tournament_matches_def world_empty_def doha_580 candidates_32
      fetch_empty has_match_id_def dict_get_def)

theorem empty_body_not_found_witness:
  "get_tournament_matches world_empty 2024 ''580'' False
     = Inr (JObj [(''tournament'', JStr ''Doha''), (''tournament_id'', JStr ''580''),
                  (''year'', JInt 2024), (''matches'', JObj [])])
   \<and> client world_empty (match_url 2024 ''580'' ''ms001'')
       = Response 200 (Some (JObj [(''MatchId'', JStr '''')]))
   \<and> ''ms001'' \<notin> fst ` set (matches_of (JObj [(''tournament'', JStr ''Doha''),
          (''tournament_id'', JStr ''580''), (''year'', JInt 2024), (''matches'', JObj [])]))
   \<and> client world_empty (match_url 2024 ''580'' ''ms002'') = Response 200 (Some JNull)
   \<and> get_single_match world_empty 2024 ''580'' ''ms002'' True
       = Inl (HTTPException 404 ''Match not found'')
   \<and> http_status (get_single_match world_empty 2024 ''580'' ''ms002'' True) = 404"
proof -
  let ?resp = "JObj [(''tournament'', JStr ''Doha''), (''tournament_id'', JStr ''580''),
                  (''year'', JInt 2024), (''matches'', JObj [])]"
  let ?body = "JObj [(''MatchId'', JStr '''')]"
  have w: "registry_load world_empty = Inr doha" "builtins_of world_empty = plain_builtins"
    "client world_empty = upstream_empty"
    by (simp_all add: world_empty_def)
  have c1: "client world_empty (match_url 2024 ''580'' ''ms001'') = Response 200 (Some ?body)"
    by (simp add: w upstream_empty_def)
  have c2: "client world_empty (match_url 2024 ''580'' ''ms002'') = Response 200 (Some JNull)"
    by (simp add: w upstream_empty_def match_url_inj)
  have tidf: "field_of ?resp ''tournament_id'' = JStr ''580''"
    by (simp add: response_fields)
  have ids: "\<exists>p. ?body = JObj p
               \<and> field_of (dict_get p ''Match'') ''MatchId'' \<in> {JStr [], JNull}
               \<and> dict_get p ''MatchId'' \<in> {JStr [], JNull}"
    by (simp add: field_of_def dict_get_def)
  note t1 = empty_body_not_found [where w = world_empty and year = 2024
      and tournament_id = "''580''" and fl = False and resp = ?resp and tid = "''580''"
      and mid = "''ms001''" and body = ?body, THEN conjunct1]
  have a: "''ms001'' \<notin> fst ` set (matches_of ?resp)"
    using t1 empty_run tidf c1 ids by blast
  have res: "resolve_tournament_id (builtins_of world_empty) ''580'' doha = Some ''580''"
    by (simp add: doha_580)
  note t2 = empty_body_not_found [where w = world_empty and year = 2024
      and tournament_id = "''580''" and fl = True and reg = doha and tid' = "''580''"
      and match_id = "''ms002''" and body' = JNull, THEN conjunct2, THEN conjunct1]
  have nt: "\<not> truthy JNull" by simp
  have ne: "''580'' \<noteq> []" by simp
  have b: "http_status (get_single_match world_empty 2024 ''580'' ''ms002'' True) = 404
           \<and> get_single_match world_empty 2024 ''580'' ''ms002'' True
              = Inl (HTTPException 404 ''Match not found'')"
    using t2 w(1) res c2 nt ne by blast
  show ?thesis using empty_run c1 a c2 b by blast
qed

end
